theory Spec2Isabelle
  imports Main "HOL-Library.Sublist"
begin

section \<open>Python values, exceptions and observable effects\<close>

text \<open>
  The script \<^verbatim>\<open>mbta2rss.py\<close> handles values decoded from JSON and strings taken from
  the command line. A decoded JSON value is \<^verbatim>\<open>None\<close>, a boolean, a number, a string, a
  list or a dictionary with string keys. Numbers all behave alike in this script (a number
  is never \<^verbatim>\<open>None\<close>, never a string and never a container), so they carry an integer.
  A dictionary is the association list of its items in insertion order. A string is a
  list of 8-bit characters, which is what the script's texts are when they are ASCII.
\<close>

datatype pyval =
    PNone
  | PBool bool
  | PNum int
  | PStr string
  | PList "pyval list"
  | PDict "(string \<times> pyval) list"

text \<open>
  The exceptions the script can raise: a failed dictionary lookup, an operation on a value
  of the wrong type, a missing method, a malformed timestamp, an unbound global name,
  \<^verbatim>\<open>exit(n)\<close>, and a failure of the HTTP request or of the decoding of its body.
\<close>

datatype pyerror =
    KeyError string
  | TypeError
  | AttributeError
  | ValueError
  | NameError string
  | SystemExit int
  | RequestError

text \<open>
  What a run does to the outside world is a trace of events in the order they happen: a
  chunk of text written to standard output, a GET request to a URL, and the entry into one
  of the three driver methods with the arguments it is called with.
\<close>

datatype driver_call =
    PrintStart
  | PrintItem pyval pyval pyval pyval pyval pyval pyval
  | PrintEnd

datatype event =
    Stdout string
  | HttpGet string
  | Call driver_call

text \<open>
  A procedure yields the events it caused and the exception that ended it, if any.
  Sequencing stops at the first exception, keeping the events that came before it.
\<close>

type_synonym proc = "event list \<times> pyerror option"

definition skip :: proc where
  "skip = ([], None)"

definition raise :: "pyerror \<Rightarrow> proc" where
  "raise e = ([], Some e)"

definition seq :: "proc \<Rightarrow> proc \<Rightarrow> proc" where
  "seq p q = (case snd p of Some e \<Rightarrow> p | None \<Rightarrow> (fst p @ fst q, snd q))"

fun seqs :: "proc list \<Rightarrow> proc" where
  "seqs [] = skip"
| "seqs (p # ps) = seq p (seqs ps)"

text \<open>\<^verbatim>\<open>print(s)\<close> writes the string and a newline.\<close>

definition print :: "string \<Rightarrow> proc" where
  "print s = ([Stdout (s @ ''\<newline>'')], None)"

fun stdout_of :: "event list \<Rightarrow> string" where
  "stdout_of [] = []"
| "stdout_of (Stdout s # es) = s @ stdout_of es"
| "stdout_of (_ # es) = stdout_of es"

fun requests_of :: "event list \<Rightarrow> string list" where
  "requests_of [] = []"
| "requests_of (HttpGet u # es) = u # requests_of es"
| "requests_of (_ # es) = requests_of es"

fun calls_of :: "event list \<Rightarrow> driver_call list" where
  "calls_of [] = []"
| "calls_of (Call c # es) = c # calls_of es"
| "calls_of (_ # es) = calls_of es"

subsection \<open>Dynamically typed string expressions\<close>

text \<open>
  An operand of a string concatenation that is not a string raises \<^verbatim>\<open>TypeError\<close>.
  Operands are evaluated from left to right, so the first failing operand decides.
\<close>

fun str_of :: "pyval \<Rightarrow> pyerror + string" where
  "str_of (PStr s) = Inr s"
| "str_of _ = Inl TypeError"

fun concat_str :: "(pyerror + string) list \<Rightarrow> pyerror + string" where
  "concat_str [] = Inr []"
| "concat_str (Inl e # xs) = Inl e"
| "concat_str (Inr s # xs) = (case concat_str xs of Inl e \<Rightarrow> Inl e | Inr t \<Rightarrow> Inr (s @ t))"

definition print_expr :: "pyerror + string \<Rightarrow> proc" where
  "print_expr x = (case x of Inl e \<Rightarrow> raise e | Inr s \<Rightarrow> print s)"

text \<open>
  \<^verbatim>\<open>s.replace(old, new)\<close> scans from the left and replaces every non-overlapping
  occurrence of \<^verbatim>\<open>old\<close>; with an empty \<^verbatim>\<open>old\<close> it puts \<^verbatim>\<open>new\<close> before every
  character and at the end.
\<close>

function str_replace :: "string \<Rightarrow> string \<Rightarrow> string \<Rightarrow> string" where
  "str_replace old new s =
     (if old = [] then new @ concat (map (\<lambda>c. c # new) s)
      else if s = [] then []
      else if prefix old s then new @ str_replace old new (drop (length old) s)
      else hd s # str_replace old new (tl s))"
  by pat_completeness auto
termination
  by (relation "measure (\<lambda>(old, new, s). length s)") auto

declare str_replace.simps [simp del]

text \<open>A method call \<^verbatim>\<open>x.replace(...)\<close> on a value that is not a string has no such method.\<close>

fun replace_method :: "pyval \<Rightarrow> string \<Rightarrow> string \<Rightarrow> pyerror + string" where
  "replace_method (PStr s) old new = Inr (str_replace old new s)"
| "replace_method _ old new = Inl AttributeError"

text \<open>
  \<^verbatim>\<open>html.escape(s)\<close> of the standard library, with its default \<^verbatim>\<open>quote=True\<close>: five
  replacements, the ampersand first.
\<close>

definition html_escape :: "string \<Rightarrow> string" where
  \<open>html_escape s =
     str_replace [CHR 0x27] ''&#x27;''
       (str_replace ''"'' ''&quot;''
         (str_replace ''>'' ''&gt;''
           (str_replace ''<'' ''&lt;''
             (str_replace ''&'' ''&amp;'' s))))\<close>

fun html_escape_val :: "pyval \<Rightarrow> pyerror + string" where
  "html_escape_val (PStr s) = Inr (html_escape s)"
| "html_escape_val _ = Inl AttributeError"

text \<open>
  \<^verbatim>\<open>x[key]\<close> with a string key: a dictionary looks the key up and raises \<^verbatim>\<open>KeyError\<close>
  when it is missing; every other value raises \<^verbatim>\<open>TypeError\<close> (lists and strings take
  integer indices, the rest cannot be subscripted).
\<close>

fun subscript :: "pyval \<Rightarrow> string \<Rightarrow> pyerror + pyval" where
  "subscript (PDict kvs) k = (case map_of kvs k of None \<Rightarrow> Inl (KeyError k) | Some v \<Rightarrow> Inr v)"
| "subscript _ k = Inl TypeError"

text \<open>
  \<^verbatim>\<open>for x in v\<close>: a list yields its elements, a dictionary its keys, a string its
  characters; nothing else can be iterated.
\<close>

fun py_iter :: "pyval \<Rightarrow> pyerror + pyval list" where
  "py_iter (PList xs) = Inr xs"
| "py_iter (PDict kvs) = Inr (map (\<lambda>kv. PStr (fst kv)) kvs)"
| "py_iter (PStr s) = Inr (map (\<lambda>c. PStr [c]) s)"
| "py_iter _ = Inl TypeError"

section \<open>The output drivers\<close>

text \<open>
  Both classes store the four constructor arguments in \<^verbatim>\<open>self.title\<close>, \<^verbatim>\<open>self.desc\<close>,
  \<^verbatim>\<open>self.lang\<close> and \<^verbatim>\<open>self.url\<close>.
\<close>

datatype driver =
    MarkdownAlertDriver (self_title: string) (self_desc: string) (self_lang: string) (self_url: string)
  | RSSAlertDriver (self_title: string) (self_desc: string) (self_lang: string) (self_url: string)

text \<open>
  The module's global names that the functions read: \<^verbatim>\<open>API_KEY\<close> (a string or
  \<^verbatim>\<open>None\<close>), and \<^verbatim>\<open>title\<close>, \<^verbatim>\<open>desc\<close> and \<^verbatim>\<open>driver\<close>, which are bound only by the
  main block (\<open>None\<close> here stands for an unbound name).
\<close>

record globals =
  API_KEY :: "string option"
  global_title :: "string option"
  global_desc :: "string option"
  global_driver :: "driver option"

subsection \<open>MarkdownAlertDriver\<close>

text \<open>
  \<^verbatim>\<open>print_start\<close> prints \<^verbatim>\<open>'# ' + title\<close> and \<^verbatim>\<open>desc\<close>: the bare names, which Python
  resolves in the module's globals, not the fields of \<^verbatim>\<open>self\<close>.
\<close>

definition markdown_print_start :: "globals \<Rightarrow> driver \<Rightarrow> proc" where
  "markdown_print_start g self =
     seq (case global_title g of
            None \<Rightarrow> raise (NameError ''title'')
          | Some t \<Rightarrow> print (''# '' @ t))
         (case global_desc g of
            None \<Rightarrow> raise (NameError ''desc'')
          | Some d \<Rightarrow> print d)"

definition markdown_print_item ::
  "driver \<Rightarrow> pyval \<Rightarrow> pyval \<Rightarrow> pyval \<Rightarrow> pyval \<Rightarrow> pyval \<Rightarrow> pyval \<Rightarrow> pyval \<Rightarrow> proc" where
  "markdown_print_item self header long_header desc effect date categories guid =
     seq (print_expr (concat_str
            [Inr ''## '', str_of header, Inr '' (added '', str_of date, Inr '')'']))
         (print_expr (concat_str
            [str_of long_header, Inr ''\<newline>\<newline>'',
             replace_method desc ''\<newline>'' ''\<newline>\<newline>'', Inr ''\<newline>\<newline>'']))"

definition markdown_print_end :: "driver \<Rightarrow> proc" where
  "markdown_print_end self = skip"

subsection \<open>RSSAlertDriver\<close>

definition rss_print_start :: "driver \<Rightarrow> proc" where
  \<open>rss_print_start self =
     seqs [print ''<?xml version="1.0" encoding="utf-8"?>'',
           print ''<rss version="2.0" xmlns:atom="http://www.w3.org/2005/Atom">'',
           print ''<channel>'',
           print (''<title>'' @ self_title self @ ''</title>''),
           print (''<description>'' @ self_desc self @ ''</description>''),
           print (''<language>'' @ self_lang self @ ''</language>''),
           print (''<link>'' @ self_url self @ ''</link>'')]\<close>

fun rss_print_categories :: "pyval list \<Rightarrow> proc" where
  "rss_print_categories [] = skip"
| "rss_print_categories (category # rest) =
     seq (print_expr (concat_str [Inr ''<category>'', str_of category, Inr ''</category>'']))
         (rss_print_categories rest)"

definition rss_print_item ::
  "driver \<Rightarrow> pyval \<Rightarrow> pyval \<Rightarrow> pyval \<Rightarrow> pyval \<Rightarrow> pyval \<Rightarrow> pyval \<Rightarrow> pyval \<Rightarrow> proc" where
  "rss_print_item self header long_header desc effect date categories guid =
     (case concat_str [Inr ''<pre>'', html_escape_val long_header, Inr ''\<newline>\<newline>'',
                       html_escape_val desc, Inr ''</pre>''] of
        Inl e \<Rightarrow> raise e
      | Inr content \<Rightarrow>
          seqs [print ''<item>'',
                print_expr (concat_str [Inr ''<title>'', html_escape_val header, Inr ''</title>'']),
                print (''<description>'' @ content @ ''</description>''),
                print_expr (concat_str [Inr ''<pubDate>'', str_of date, Inr ''</pubDate>'']),
                print_expr (concat_str [Inr ''<guid>'', str_of guid, Inr ''</guid>'']),
                (case py_iter categories of
                   Inl e \<Rightarrow> raise e
                 | Inr cs \<Rightarrow> rss_print_categories cs),
                print ''</item>''])"

definition rss_print_end :: "driver \<Rightarrow> proc" where
  "rss_print_end self = seqs [print ''</channel>'', print ''</rss>'']"

subsection \<open>Method calls\<close>

text \<open>
  A call \<^verbatim>\<open>driver.print_start()\<close>, \<^verbatim>\<open>driver.print_item(...)\<close> or
  \<^verbatim>\<open>driver.print_end()\<close> enters the method of the driver's class; the trace records
  the entry.
\<close>

fun print_start :: "globals \<Rightarrow> driver \<Rightarrow> proc" where
  "print_start g (MarkdownAlertDriver t d l u) =
     seq ([Call PrintStart], None) (markdown_print_start g (MarkdownAlertDriver t d l u))"
| "print_start g (RSSAlertDriver t d l u) =
     seq ([Call PrintStart], None) (rss_print_start (RSSAlertDriver t d l u))"

fun print_item ::
  "driver \<Rightarrow> pyval \<Rightarrow> pyval \<Rightarrow> pyval \<Rightarrow> pyval \<Rightarrow> pyval \<Rightarrow> pyval \<Rightarrow> pyval \<Rightarrow> proc" where
  "print_item (MarkdownAlertDriver t d l u) header long_header desc effect date categories guid =
     seq ([Call (PrintItem header long_header desc effect date categories guid)], None)
         (markdown_print_item (MarkdownAlertDriver t d l u)
            header long_header desc effect date categories guid)"
| "print_item (RSSAlertDriver t d l u) header long_header desc effect date categories guid =
     seq ([Call (PrintItem header long_header desc effect date categories guid)], None)
         (rss_print_item (RSSAlertDriver t d l u)
            header long_header desc effect date categories guid)"

fun print_end :: "driver \<Rightarrow> proc" where
  "print_end (MarkdownAlertDriver t d l u) =
     seq ([Call PrintEnd], None) (markdown_print_end (MarkdownAlertDriver t d l u))"
| "print_end (RSSAlertDriver t d l u) =
     seq ([Call PrintEnd], None) (rss_print_end (RSSAlertDriver t d l u))"

section \<open>Timestamps\<close>

text \<open>
  \<^verbatim>\<open>datetime.fromisoformat\<close> and \<^verbatim>\<open>strftime\<close> belong to Python's standard library.
  They are modelled after the library's documentation and its reference implementation
  (\<^verbatim>\<open>Lib/datetime.py\<close>): \<^verbatim>\<open>fromisoformat\<close> reads
  \<^verbatim>\<open>YYYY-MM-DD[*HH[:MM[:SS[.fff[fff]]]][+HH:MM[:SS[.ffffff]]]]\<close>, where \<^verbatim>\<open>*\<close> is any
  single character, and the constructor checks the ranges of the fields;
  \<^verbatim>\<open>strftime\<close> is the one of the C locale, which the script never changes.
\<close>

record datetime =
  year :: nat
  month :: nat
  day :: nat
  hour :: nat
  minute :: nat
  second :: nat
  microsecond :: nat
  utcoffset :: "int option"

definition is_digit :: "char \<Rightarrow> bool" where
  "is_digit c = (48 \<le> (of_char c :: nat) \<and> (of_char c :: nat) \<le> 57)"

definition digit_val :: "char \<Rightarrow> nat" where
  "digit_val c = of_char c - 48"

text \<open>Exactly \<open>n\<close> decimal digits at the front of the string, and the rest of it.\<close>

definition parse_digits :: "nat \<Rightarrow> string \<Rightarrow> (nat \<times> string) option" where
  "parse_digits n s =
     (if n \<le> length s \<and> list_all is_digit (take n s)
      then Some (foldl (\<lambda>a c. a * 10 + digit_val c) 0 (take n s), drop n s)
      else None)"

definition expect :: "char \<Rightarrow> string \<Rightarrow> string option" where
  "expect c s = (case s of [] \<Rightarrow> None | x # xs \<Rightarrow> if x = c then Some xs else None)"

definition parse_isoformat_date :: "string \<Rightarrow> (nat \<times> nat \<times> nat) option" where
  "parse_isoformat_date dtstr =
     Option.bind (parse_digits 4 dtstr) (\<lambda>(y, r1).
     Option.bind (expect (CHR ''-'') r1) (\<lambda>r2.
     Option.bind (parse_digits 2 r2) (\<lambda>(m, r3).
     Option.bind (expect (CHR ''-'') r3) (\<lambda>r4.
     Option.bind (parse_digits 2 r4) (\<lambda>(d, r5).
     if r5 = [] then Some (y, m, d) else None)))))"

definition parse_fraction :: "string \<Rightarrow> nat option" where
  "parse_fraction s =
     (if s = [] then Some 0
      else Option.bind (expect (CHR ''.'') s) (\<lambda>r.
        if length r = 3 then map_option (\<lambda>(us, _). us * 1000) (parse_digits 3 r)
        else if length r = 6 then map_option fst (parse_digits 6 r)
        else None))"

definition parse_hh_mm_ss_ff :: "string \<Rightarrow> (nat \<times> nat \<times> nat \<times> nat) option" where
  "parse_hh_mm_ss_ff tstr =
     Option.bind (parse_digits 2 tstr) (\<lambda>(h, r1).
     if r1 = [] then Some (h, 0, 0, 0) else
     Option.bind (expect (CHR '':'') r1) (\<lambda>r2.
     Option.bind (parse_digits 2 r2) (\<lambda>(m, r3).
     if r3 = [] then Some (h, m, 0, 0) else
     Option.bind (expect (CHR '':'') r3) (\<lambda>r4.
     Option.bind (parse_digits 2 r4) (\<lambda>(s, r5).
     map_option (\<lambda>us. (h, m, s, us)) (parse_fraction r5))))))"

text \<open>
  The time zone starts at the first \<^verbatim>\<open>-\<close> of the time string or, when there is none,
  at its first \<^verbatim>\<open>+\<close>. The offset is kept in microseconds and must lie strictly between
  minus and plus 24 hours.
\<close>

definition find_char :: "char \<Rightarrow> string \<Rightarrow> nat option" where
  "find_char c s = (if c \<in> set s then Some (length (takeWhile (\<lambda>x. x \<noteq> c) s)) else None)"

definition tz_pos :: "string \<Rightarrow> nat option" where
  "tz_pos tstr =
     (case find_char (CHR ''-'') tstr of Some i \<Rightarrow> Some i | None \<Rightarrow> find_char (CHR ''+'') tstr)"

definition parse_tz :: "char \<Rightarrow> string \<Rightarrow> int option" where
  "parse_tz sign tzstr =
     (if length tzstr \<notin> {5, 8, 15} then None
      else Option.bind (parse_hh_mm_ss_ff tzstr) (\<lambda>(h, m, s, us).
        let td = ((int h * 60 + int m) * 60 + int s) * 1000000 + int us
        in if td < 86400000000
           then Some (if sign = CHR ''-'' then - td else td)
           else None))"

definition parse_isoformat_time ::
  "string \<Rightarrow> (nat \<times> nat \<times> nat \<times> nat \<times> int option) option" where
  "parse_isoformat_time tstr =
     (if length tstr < 2 then None
      else case tz_pos tstr of
        None \<Rightarrow> map_option (\<lambda>(h, m, s, us). (h, m, s, us, None)) (parse_hh_mm_ss_ff tstr)
      | Some i \<Rightarrow>
          Option.bind (parse_hh_mm_ss_ff (take i tstr)) (\<lambda>(h, m, s, us).
          Option.bind (parse_tz (tstr ! i) (drop (Suc i) tstr)) (\<lambda>off.
          Some (h, m, s, us, Some off))))"

definition is_leap :: "nat \<Rightarrow> bool" where
  "is_leap y = (y mod 4 = 0 \<and> (y mod 100 \<noteq> 0 \<or> y mod 400 = 0))"

definition days_in_month :: "nat \<Rightarrow> nat \<Rightarrow> nat" where
  "days_in_month y m =
     (if m = 2 then (if is_leap y then 29 else 28)
      else if m \<in> {4, 6, 9, 11} then 30 else 31)"

text \<open>The constructor \<^verbatim>\<open>datetime(...)\<close> raises \<^verbatim>\<open>ValueError\<close> on a field out of range.\<close>

definition valid_datetime :: "datetime \<Rightarrow> bool" where
  "valid_datetime dt =
     (1 \<le> year dt \<and> year dt \<le> 9999 \<and> 1 \<le> month dt \<and> month dt \<le> 12 \<and>
      1 \<le> day dt \<and> day dt \<le> days_in_month (year dt) (month dt) \<and>
      hour dt < 24 \<and> minute dt < 60 \<and> second dt < 60 \<and> microsecond dt < 1000000)"

definition make_datetime ::
  "nat \<times> nat \<times> nat \<Rightarrow> nat \<times> nat \<times> nat \<times> nat \<times> int option \<Rightarrow> pyerror + datetime" where
  "make_datetime d t =
     (case d of (y, mo, dd) \<Rightarrow> case t of (h, mi, s, us, tz) \<Rightarrow>
        let dt = \<lparr>year = y, month = mo, day = dd, hour = h, minute = mi, second = s,
                  microsecond = us, utcoffset = tz\<rparr>
        in if valid_datetime dt then Inr dt else Inl ValueError)"

definition fromisoformat_str :: "string \<Rightarrow> pyerror + datetime" where
  "fromisoformat_str date_string =
     (case parse_isoformat_date (take 10 date_string) of
        None \<Rightarrow> Inl ValueError
      | Some d \<Rightarrow>
          if drop 11 date_string = [] then make_datetime d (0, 0, 0, 0, None)
          else (case parse_isoformat_time (drop 11 date_string) of
                  None \<Rightarrow> Inl ValueError
                | Some t \<Rightarrow> make_datetime d t))"

fun fromisoformat :: "pyval \<Rightarrow> pyerror + datetime" where
  "fromisoformat (PStr s) = fromisoformat_str s"
| "fromisoformat _ = Inl TypeError"

subsection \<open>Formatting\<close>

definition digit_char :: "nat \<Rightarrow> char" where
  "digit_char n = char_of (48 + n)"

fun show_nat :: "nat \<Rightarrow> string" where
  "show_nat n = (if n < 10 then [digit_char n] else show_nat (n div 10) @ [digit_char (n mod 10)])"

declare show_nat.simps [simp del]

definition zero_pad :: "nat \<Rightarrow> string \<Rightarrow> string" where
  "zero_pad w s = replicate (w - length s) (CHR ''0'') @ s"

text \<open>
  The directives of \<^verbatim>\<open>strftime\<close>: \<^verbatim>\<open>%d\<close>, \<^verbatim>\<open>%m\<close>, \<^verbatim>\<open>%H\<close>, \<^verbatim>\<open>%M\<close> and \<^verbatim>\<open>%S\<close> are
  zero-padded to two digits, \<^verbatim>\<open>%Y\<close> is the year with century (documented as
  \<^verbatim>\<open>0001\<close> to \<^verbatim>\<open>9999\<close>), \<^verbatim>\<open>%I\<close> is the hour of the 12-hour clock (\<^verbatim>\<open>01\<close> to
  \<^verbatim>\<open>12\<close>), \<^verbatim>\<open>%p\<close> is \<^verbatim>\<open>AM\<close> or \<^verbatim>\<open>PM\<close>, \<^verbatim>\<open>%%\<close> is a percent sign. Any other
  directive is left as it is written.
\<close>

definition directive :: "char \<Rightarrow> datetime \<Rightarrow> string" where
  "directive c dt =
     (if c = CHR ''d'' then zero_pad 2 (show_nat (day dt))
      else if c = CHR ''m'' then zero_pad 2 (show_nat (month dt))
      else if c = CHR ''Y'' then zero_pad 4 (show_nat (year dt))
      else if c = CHR ''H'' then zero_pad 2 (show_nat (hour dt))
      else if c = CHR ''I'' then
        zero_pad 2 (show_nat (if hour dt mod 12 = 0 then 12 else hour dt mod 12))
      else if c = CHR ''M'' then zero_pad 2 (show_nat (minute dt))
      else if c = CHR ''S'' then zero_pad 2 (show_nat (second dt))
      else if c = CHR ''p'' then (if hour dt < 12 then ''AM'' else ''PM'')
      else if c = CHR ''%'' then ''%''
      else [CHR ''%'', c])"

fun strftime :: "datetime \<Rightarrow> string \<Rightarrow> string" where
  "strftime dt [] = []"
| "strftime dt [c] = [c]"
| "strftime dt (c # d # rest) =
     (if c = CHR ''%'' then directive d dt @ strftime dt rest
      else c # strftime dt (d # rest))"

section \<open>The alert mapper\<close>

definition bind_err :: "'e + 'a \<Rightarrow> ('a \<Rightarrow> 'e + 'b) \<Rightarrow> 'e + 'b" where
  "bind_err x f = (case x of Inl e \<Rightarrow> Inl e | Inr v \<Rightarrow> f v)"

text \<open>
  \<^verbatim>\<open>retrieve_from_api(req)\<close> sends one GET request and decodes the body. The upstream
  service is a parameter: what it answers (or how it fails) for each URL.
\<close>

type_synonym upstream = "string \<Rightarrow> pyerror + pyval"

definition retrieve_from_api :: "upstream \<Rightarrow> string \<Rightarrow> event list \<times> (pyerror + pyval)" where
  "retrieve_from_api api req =
     ([HttpGet (''https://api-v3.mbta.com/'' @ req)], api (''https://api-v3.mbta.com/'' @ req))"

text \<open>Lines 94 to 108 of \<^verbatim>\<open>get_alerts\<close>: the request string and its separator.\<close>

definition alerts_req_str :: "string option \<Rightarrow> string option \<Rightarrow> string option \<Rightarrow> string" where
  "alerts_req_str api_key route time =
     (let req_str = ''alerts'';
          character = ''?'';
          (req_str, character) =
            (case time of None \<Rightarrow> (req_str, character)
             | Some t \<Rightarrow> (req_str @ character @ ''filter[datetime]='' @ t, ''&''));
          (req_str, character) =
            (case api_key of None \<Rightarrow> (req_str, character)
             | Some k \<Rightarrow> (req_str @ character @ ''api_key='' @ k, ''&''));
          (req_str, character) =
            (case route of None \<Rightarrow> (req_str, character)
             | Some r \<Rightarrow> (req_str @ character @ ''filter[route]='' @ r, ''&''))
      in req_str)"

text \<open>
  The body of the loop up to the call of the driver (lines 114 to 129): the seven
  arguments of \<^verbatim>\<open>print_item\<close> for one alert, or the exception raised on the way.
\<close>

type_synonym item_args = "pyval \<times> pyval \<times> pyval \<times> pyval \<times> pyval \<times> pyval \<times> pyval"

definition alert_item_args :: "pyval \<Rightarrow> pyerror + item_args" where
  "alert_item_args alert =
     bind_err (subscript alert ''attributes'') (\<lambda>attributes.
     bind_err (subscript alert ''id'') (\<lambda>guid.
     bind_err (subscript attributes ''short_header'') (\<lambda>header.
     bind_err (subscript attributes ''header'') (\<lambda>long_header.
     bind_err (subscript attributes ''created_at'') (\<lambda>created_at.
     bind_err (fromisoformat created_at) (\<lambda>dt.
     let date = strftime dt ''%m-%d-%Y %I:%M %p'' in
     bind_err (subscript attributes ''description'') (\<lambda>description.
     let desc = (if description \<noteq> PNone then description else PStr []) in
     bind_err (subscript attributes ''effect'') (\<lambda>eff.
     bind_err (if eff \<noteq> PNone
               then map_sum id PStr (concat_str [Inr ''Effect: '', str_of eff])
               else Inr (PStr [])) (\<lambda>effect.
     Inr (header, long_header, desc, effect, PStr date, PList [], guid))))))))))"

fun alerts_loop :: "driver \<Rightarrow> pyval list \<Rightarrow> proc" where
  "alerts_loop driver [] = skip"
| "alerts_loop driver (alert # rest) =
     (case alert_item_args alert of
        Inl e \<Rightarrow> raise e
      | Inr (header, long_header, desc, effect, date, categories, guid) \<Rightarrow>
          seq (print_item driver header long_header desc effect date categories guid)
              (alerts_loop driver rest))"

definition get_alerts ::
  "globals \<Rightarrow> upstream \<Rightarrow> driver \<Rightarrow> string option \<Rightarrow> string option \<Rightarrow> proc" where
  "get_alerts g api driver route time =
     seq (print_start g driver)
       (case retrieve_from_api api (alerts_req_str (API_KEY g) route time) of
          (sent, Inl e) \<Rightarrow> (sent, Some e)
        | (sent, Inr alerts) \<Rightarrow>
            seq (sent, None)
              (case bind_err (subscript alerts ''data'') py_iter of
                 Inl e \<Rightarrow> raise e
               | Inr items \<Rightarrow> seq (alerts_loop driver items) (print_end driver)))"

section \<open>The stop lister\<close>

text \<open>\<^verbatim>\<open>s.split(',')\<close>: the pieces between the separators, empty pieces included.\<close>

fun split_on :: "char \<Rightarrow> string \<Rightarrow> string list" where
  "split_on c [] = [[]]"
| "split_on c (x # xs) =
     (if x = c then [] # split_on c xs
      else case split_on c xs of
             [] \<Rightarrow> [[x]]
           | w # ws \<Rightarrow> (x # w) # ws)"

fun stops_loop :: "pyval list \<Rightarrow> proc" where
  "stops_loop [] = skip"
| "stops_loop (stop # rest) =
     seq (print_expr (concat_str
            [Inr ''* '',
             bind_err (bind_err (subscript stop ''attributes'') (\<lambda>a. subscript a ''name'')) str_of]))
         (stops_loop rest)"

fun routes_loop :: "globals \<Rightarrow> upstream \<Rightarrow> string list \<Rightarrow> proc" where
  "routes_loop g api [] = skip"
| "routes_loop g api (route # rest) =
     seq (case retrieve_from_api api
                 (''stops?filter[route]='' @ route @
                  (case API_KEY g of None \<Rightarrow> [] | Some k \<Rightarrow> ''&api_key='' @ k)) of
            (sent, Inl e) \<Rightarrow> (sent, Some e)
          | (sent, Inr stoplist) \<Rightarrow>
              seqs [(sent, None),
                    print (''## Route: '' @ route),
                    (case bind_err (subscript stoplist ''data'') py_iter of
                       Inl e \<Rightarrow> raise e
                     | Inr stops \<Rightarrow> stops_loop stops)])
         (routes_loop g api rest)"

text \<open>\<^verbatim>\<open>get_stoplist\<close> uses the global name \<^verbatim>\<open>driver\<close>, which only the main block binds.\<close>

definition get_stoplist :: "globals \<Rightarrow> upstream \<Rightarrow> string option \<Rightarrow> proc" where
  "get_stoplist g api routes =
     (case routes of
        None \<Rightarrow> seq (print ''route list must be provided when listing stops'')
                    (raise (SystemExit 1))
      | Some rs \<Rightarrow>
          (case global_driver g of
             None \<Rightarrow> raise (NameError ''driver'')
           | Some driver \<Rightarrow>
               seqs [print_start g driver,
                     routes_loop g api (split_on (CHR '','') rs),
                     print_end driver]))"

section \<open>The main block\<close>

definition DEFAULT_TITLE :: string where
  "DEFAULT_TITLE = ''Unofficial MBTA Alert Feed''"

definition DEFAULT_DESC :: string where
  "DEFAULT_DESC = ''An unofficial feed for public transit alerts in the Boston area.''"

definition DEFAULT_LANG :: string where
  "DEFAULT_LANG = ''en_us''"

definition DEFAULT_URL :: string where
  "DEFAULT_URL = ''https://github.com/darklands1/mbta-rss''"

definition DEFAULT_DATATYPE :: string where
  "DEFAULT_DATATYPE = ''alerts''"

text \<open>The parsed command line: every option is a string or \<^verbatim>\<open>None\<close>.\<close>

record args =
  arg_datatype :: "string option"
  arg_output :: "string option"
  arg_routes :: "string option"
  arg_time :: "string option"
  arg_title :: "string option"
  arg_description :: "string option"
  arg_url :: "string option"

text \<open>
  The main block after \<^verbatim>\<open>parse_args\<close>, given the value of the environment variable
  \<^verbatim>\<open>API_KEY\<close> (\<open>None\<close> when it is not set) and the upstream service.
\<close>

definition main :: "args \<Rightarrow> string option \<Rightarrow> upstream \<Rightarrow> proc" where
  "main a env_api_key api =
     (let title = (case arg_title a of None \<Rightarrow> DEFAULT_TITLE | Some t \<Rightarrow> t);
          desc = (case arg_description a of None \<Rightarrow> DEFAULT_DESC | Some d \<Rightarrow> d);
          url = (case arg_url a of None \<Rightarrow> DEFAULT_URL | Some u \<Rightarrow> u);
          datatype = (case arg_datatype a of None \<Rightarrow> DEFAULT_DATATYPE | Some d \<Rightarrow> d);
          outfmt = arg_output a;
          routes = arg_routes a;
          time = arg_time a
      in if outfmt = None \<or> outfmt = Some ''rss'' \<or> outfmt = Some ''md'' then
           let driver = (if outfmt = None \<or> outfmt = Some ''rss''
                         then RSSAlertDriver title desc DEFAULT_LANG url
                         else MarkdownAlertDriver title desc DEFAULT_LANG url);
               g = \<lparr>API_KEY = env_api_key, global_title = Some title,
                    global_desc = Some desc, global_driver = Some driver\<rparr>
           in if datatype = ''alerts'' then get_alerts g api driver routes time
              else if datatype = ''stops'' then get_stoplist g api routes
              else seq (print ''No such data type.'') (raise (SystemExit 0))
         else seq (print ''No such output driver.'') (raise (SystemExit 0)))"

text \<open>
  The exit status of the process: 0 when the script runs to its end, the argument of
  \<^verbatim>\<open>exit\<close>, and 1 for an uncaught exception.
\<close>

fun exit_status :: "pyerror option \<Rightarrow> int" where
  "exit_status None = 0"
| "exit_status (Some (SystemExit n)) = n"
| "exit_status (Some _) = 1"

section \<open>Reference definitions\<close>

text \<open>
  The definitions of this section restate, independently of the code, what the
  specification says; the theorems below compare them with the model of the code.
\<close>

subsection \<open>Item text and request string\<close>

text \<open>Every newline becomes two newlines.\<close>

definition double_newlines :: "string \<Rightarrow> string" where
  "double_newlines d =
     concat (map (\<lambda>c. if c = CHR ''\<newline>'' then ''\<newline>\<newline>'' else [c]) d)"

text \<open>
  The query parameters that are present, in the order time, key, route; the first is
  introduced by a question mark and every later one by an ampersand.
\<close>

definition query_params :: "string option \<Rightarrow> string option \<Rightarrow> string option \<Rightarrow> string list" where
  "query_params time api_key route =
     (case time of None \<Rightarrow> [] | Some t \<Rightarrow> [''filter[datetime]='' @ t]) @
     (case api_key of None \<Rightarrow> [] | Some k \<Rightarrow> [''api_key='' @ k]) @
     (case route of None \<Rightarrow> [] | Some r \<Rightarrow> [''filter[route]='' @ r])"

fun join_query :: "string list \<Rightarrow> string" where
  "join_query [] = []"
| "join_query (p # ps) = ''?'' @ p @ concat (map (\<lambda>q. ''&'' @ q) ps)"

subsection \<open>Escaped text\<close>

text \<open>The entity that stands for a character, or the character itself.\<close>

definition escape_char :: "char \<Rightarrow> string" where
  \<open>escape_char c =
     (if c = CHR ''&'' then ''&amp;''
      else if c = CHR ''<'' then ''&lt;''
      else if c = CHR ''>'' then ''&gt;''
      else if c = CHR ''"'' then ''&quot;''
      else if c = CHR 0x27 then ''&#x27;''
      else [c])\<close>

text \<open>Every ampersand of the text starts one of the five entities.\<close>

fun entity_starts :: "string \<Rightarrow> bool" where
  "entity_starts [] = True"
| "entity_starts (c # cs) =
     ((if c = CHR ''&''
       then prefix ''amp;'' cs \<or> prefix ''lt;'' cs \<or> prefix ''gt;'' cs \<or>
            prefix ''quot;'' cs \<or> prefix ''#x27;'' cs
       else True) \<and> entity_starts cs)"

subsection \<open>The date format\<close>

text \<open>
  \<^verbatim>\<open>MM-DD-YYYY hh:mm AM/PM\<close>: month, day, hour and minute on two digits, the year on
  four, the hour on the 12-hour clock, a space before \<^verbatim>\<open>AM\<close> or \<^verbatim>\<open>PM\<close>.
\<close>

definition two_digits :: "nat \<Rightarrow> string" where
  "two_digits n = [digit_char (n div 10), digit_char (n mod 10)]"

definition four_digits :: "nat \<Rightarrow> string" where
  "four_digits n =
     [digit_char (n div 1000), digit_char (n div 100 mod 10),
      digit_char (n div 10 mod 10), digit_char (n mod 10)]"

definition hour12 :: "nat \<Rightarrow> nat" where
  "hour12 h = (if h = 0 then 12 else if h \<le> 12 then h else h - 12)"

definition spec_date :: "datetime \<Rightarrow> string" where
  "spec_date dt =
     two_digits (month dt) @ ''-'' @ two_digits (day dt) @ ''-'' @ four_digits (year dt) @
     '' '' @ two_digits (hour12 (hour dt)) @ '':'' @ two_digits (minute dt) @
     '' '' @ (if hour dt < 12 then ''AM'' else ''PM'')"

subsection \<open>Alert records\<close>

text \<open>
  An alert record as the upstream service documents it: a dictionary with a string
  \<^verbatim>\<open>id\<close> and a dictionary \<^verbatim>\<open>attributes\<close> that maps \<^verbatim>\<open>short_header\<close> and
  \<^verbatim>\<open>header\<close> to strings, \<^verbatim>\<open>created_at\<close> to a timestamp that
  \<^verbatim>\<open>fromisoformat\<close> accepts, and \<^verbatim>\<open>description\<close> and \<^verbatim>\<open>effect\<close> to a string or
  to \<^verbatim>\<open>None\<close>.
\<close>

definition has_str :: "pyval \<Rightarrow> string \<Rightarrow> bool" where
  "has_str v k = (case subscript v k of Inr (PStr s) \<Rightarrow> True | _ \<Rightarrow> False)"

definition has_str_or_none :: "pyval \<Rightarrow> string \<Rightarrow> bool" where
  "has_str_or_none v k =
     (case subscript v k of Inr (PStr s) \<Rightarrow> True | Inr PNone \<Rightarrow> True | _ \<Rightarrow> False)"

definition has_timestamp :: "pyval \<Rightarrow> string \<Rightarrow> bool" where
  "has_timestamp v k =
     (case subscript v k of
        Inr (PStr s) \<Rightarrow> (case fromisoformat_str s of Inr dt \<Rightarrow> True | Inl e \<Rightarrow> False)
      | _ \<Rightarrow> False)"

definition wf_alert :: "pyval \<Rightarrow> bool" where
  "wf_alert alert =
     (case subscript alert ''attributes'' of
        Inl e \<Rightarrow> False
      | Inr attributes \<Rightarrow>
          has_str alert ''id'' \<and> has_str attributes ''short_header'' \<and>
          has_str attributes ''header'' \<and> has_timestamp attributes ''created_at'' \<and>
          has_str_or_none attributes ''description'' \<and> has_str_or_none attributes ''effect'')"

text \<open>
  The call of \<^verbatim>\<open>print_item\<close> that the specification prescribes for a record: the
  short header, the header, the description or the empty string, the effect behind
  \<^verbatim>\<open>Effect: \<close> or the empty string, the formatted date, no categories, the id.
\<close>

definition attribute :: "pyval \<Rightarrow> string \<Rightarrow> pyval" where
  "attribute alert k =
     (case bind_err (subscript alert ''attributes'') (\<lambda>a. subscript a k) of
        Inr v \<Rightarrow> v | Inl e \<Rightarrow> PNone)"

definition spec_date_of :: "pyval \<Rightarrow> pyval" where
  "spec_date_of v = (case fromisoformat v of Inr dt \<Rightarrow> PStr (spec_date dt) | Inl e \<Rightarrow> PNone)"

definition expected_item :: "pyval \<Rightarrow> driver_call" where
  "expected_item alert =
     PrintItem (attribute alert ''short_header'') (attribute alert ''header'')
       (case attribute alert ''description'' of PNone \<Rightarrow> PStr [] | v \<Rightarrow> v)
       (case attribute alert ''effect'' of PStr e \<Rightarrow> PStr (''Effect: '' @ e) | v \<Rightarrow> PStr [])
       (spec_date_of (attribute alert ''created_at''))
       (PList [])
       (case subscript alert ''id'' of Inr v \<Rightarrow> v | Inl e \<Rightarrow> PNone)"

subsection \<open>Text that only a record can bring\<close>

text \<open>
  \<open>own_text\<close> holds every character that the drivers and the date format write by
  themselves. A pattern is foreign to them when its first character is none of these and
  it contains none of the characters that surround a field in the output.
\<close>

definition own_text :: string where
  "own_text =
     ''<item></title><description><pre><pubDate><guid>'' @ ''## (added )'' @
     ''&amp;&lt;&gt;&quot;&#x27;'' @ ''0123456789-: APM'' @ ''\<newline>''"

definition foreign :: "string \<Rightarrow> bool" where
  "foreign q = (q \<noteq> [] \<and> hd q \<notin> set own_text \<and> set q \<inter> set ''<>&;#() \<newline>'' = {})"

subsection \<open>Sample data\<close>

definition example_alert :: pyval where
  "example_alert =
     PDict [(''id'', PStr ''42''),
            (''attributes'',
             PDict [(''short_header'', PStr ''Delay''),
                    (''header'', PStr ''Red Line delay''),
                    (''created_at'', PStr ''2021-03-05T14:30:00-05:00''),
                    (''description'', PNone),
                    (''effect'', PNone)])]"

definition example_alert_no_description :: pyval where
  "example_alert_no_description =
     PDict [(''id'', PStr ''43''),
            (''attributes'',
             PDict [(''short_header'', PStr ''Detour''),
                    (''header'', PStr ''Bus 1 detour''),
                    (''created_at'', PStr ''2021-03-05T14:30:00-05:00''),
                    (''effect'', PStr ''DETOUR'')])]"

definition example_globals :: globals where
  "example_globals =
     \<lparr>API_KEY = None, global_title = Some ''Feed'', global_desc = Some ''About'',
      global_driver = None\<rparr>"

definition example_upstream :: upstream where
  "example_upstream url = Inr (PDict [(''data'', PList [example_alert])])"

definition example_upstream_missing :: upstream where
  "example_upstream_missing url =
     Inr (PDict [(''data'', PList [example_alert, example_alert_no_description, example_alert])])"

section \<open>Sequencing and projections of the trace\<close>

lemma fst_seq: "fst (seq p q) = (if snd p = None then fst p @ fst q else fst p)"
  by (cases p) (auto simp: seq_def split: option.splits)

lemma snd_seq: "snd (seq p q) = (if snd p = None then snd q else snd p)"
  by (cases p) (auto simp: seq_def split: option.splits)

lemma seq_ok: "seq (es, None) q = (es @ fst q, snd q)"
  by (simp add: seq_def)

lemma seq_raise [simp]: "seq (raise e) q = raise e"
  by (simp add: seq_def raise_def)

lemma snd_print [simp]: "snd (print s) = None"
  by (simp add: print_def)

lemma snd_skip [simp]: "snd skip = None"
  by (simp add: skip_def)

lemma snd_raise [simp]: "snd (raise e) = Some e"
  by (simp add: raise_def)

lemma stdout_of_append: "stdout_of (xs @ ys) = stdout_of xs @ stdout_of ys"
  by (induction xs rule: stdout_of.induct) auto

lemma calls_of_append: "calls_of (xs @ ys) = calls_of xs @ calls_of ys"
  by (induction xs rule: calls_of.induct) auto

lemma requests_of_append: "requests_of (xs @ ys) = requests_of xs @ requests_of ys"
  by (induction xs rule: requests_of.induct) auto

lemma stdout_of_call_seq: "stdout_of (fst (seq ([Call c], None) p)) = stdout_of (fst p)"
  by (simp add: seq_ok)


lemma bind_err_Inr [simp]: "bind_err (Inr v) f = f v"
  by (simp add: bind_err_def)

lemma bind_err_Inl [simp]: "bind_err (Inl e) f = Inl e"
  by (simp add: bind_err_def)

lemma bind_err_eq_Inr: "bind_err x f = Inr y \<longleftrightarrow> (\<exists>v. x = Inr v \<and> f v = Inr y)"
  by (cases x) simp_all

subsection \<open>Only \<^verbatim>\<open>retrieve_from_api\<close> sends a request\<close>

lemma requests_of_print [simp]: "requests_of (fst (print s)) = []"
  by (simp add: print_def)

lemma requests_of_print_expr [simp]: "requests_of (fst (print_expr x)) = []"
  by (cases x) (simp_all add: print_expr_def raise_def)

lemma requests_of_raise [simp]: "requests_of (fst (raise e)) = []"
  by (simp add: raise_def)

lemma requests_of_skip [simp]: "requests_of (fst skip) = []"
  by (simp add: skip_def)

lemma requests_of_seq:
  "requests_of (fst (seq p q)) =
     (if snd p = None then requests_of (fst p) @ requests_of (fst q) else requests_of (fst p))"
  by (simp add: fst_seq requests_of_append)

lemma requests_of_seq_nil:
  "requests_of (fst p) = [] \<Longrightarrow> requests_of (fst q) = [] \<Longrightarrow> requests_of (fst (seq p q)) = []"
  by (simp add: requests_of_seq)

lemma requests_of_rss_print_categories [simp]: "requests_of (fst (rss_print_categories cs)) = []"
  by (induction cs) (simp_all add: requests_of_seq_nil)

lemma requests_of_markdown_print_start [simp]: "requests_of (fst (markdown_print_start g d)) = []"
  by (auto simp: markdown_print_start_def intro!: requests_of_seq_nil split: option.splits)

lemma requests_of_rss_print_start [simp]: "requests_of (fst (rss_print_start d)) = []"
  by (auto simp: rss_print_start_def intro!: requests_of_seq_nil)

lemma requests_of_print_start [simp]: "requests_of (fst (print_start g d)) = []"
  by (cases d) (auto intro!: requests_of_seq_nil)

lemma requests_of_markdown_print_item [simp]:
  "requests_of (fst (markdown_print_item d a1 a2 a3 a4 a5 a6 a7)) = []"
  by (auto simp: markdown_print_item_def intro!: requests_of_seq_nil)

lemma requests_of_rss_print_item [simp]:
  "requests_of (fst (rss_print_item d a1 a2 a3 a4 a5 a6 a7)) = []"
  by (auto simp: rss_print_item_def intro!: requests_of_seq_nil split: sum.splits)

lemma requests_of_print_item [simp]:
  "requests_of (fst (print_item d a1 a2 a3 a4 a5 a6 a7)) = []"
  by (cases d) (auto intro!: requests_of_seq_nil)

lemma requests_of_print_end [simp]: "requests_of (fst (print_end d)) = []"
  by (cases d) (auto simp: markdown_print_end_def rss_print_end_def intro!: requests_of_seq_nil)

lemma requests_of_alerts_loop [simp]: "requests_of (fst (alerts_loop d items)) = []"
  by (induction items) (auto intro!: requests_of_seq_nil split: sum.splits)

subsection \<open>A method is entered once per call\<close>

lemma calls_of_print [simp]: "calls_of (fst (print s)) = []"
  by (simp add: print_def)

lemma calls_of_print_expr [simp]: "calls_of (fst (print_expr x)) = []"
  by (cases x) (simp_all add: print_expr_def raise_def)

lemma calls_of_raise [simp]: "calls_of (fst (raise e)) = []"
  by (simp add: raise_def)

lemma calls_of_skip [simp]: "calls_of (fst skip) = []"
  by (simp add: skip_def)

lemma calls_of_seq:
  "calls_of (fst (seq p q)) =
     (if snd p = None then calls_of (fst p) @ calls_of (fst q) else calls_of (fst p))"
  by (simp add: fst_seq calls_of_append)

lemma calls_of_seq_nil:
  "calls_of (fst p) = [] \<Longrightarrow> calls_of (fst q) = [] \<Longrightarrow> calls_of (fst (seq p q)) = []"
  by (simp add: calls_of_seq)

lemma calls_of_rss_print_categories [simp]: "calls_of (fst (rss_print_categories cs)) = []"
  by (induction cs) (simp_all add: calls_of_seq_nil)

lemma calls_of_markdown_print_start [simp]: "calls_of (fst (markdown_print_start g d)) = []"
  by (auto simp: markdown_print_start_def intro!: calls_of_seq_nil split: option.splits)

lemma calls_of_rss_print_start [simp]: "calls_of (fst (rss_print_start d)) = []"
  by (auto simp: rss_print_start_def intro!: calls_of_seq_nil)

lemma calls_of_markdown_print_item [simp]:
  "calls_of (fst (markdown_print_item d a1 a2 a3 a4 a5 a6 a7)) = []"
  by (auto simp: markdown_print_item_def intro!: calls_of_seq_nil)

lemma calls_of_rss_print_item [simp]:
  "calls_of (fst (rss_print_item d a1 a2 a3 a4 a5 a6 a7)) = []"
  by (auto simp: rss_print_item_def intro!: calls_of_seq_nil split: sum.splits)

lemma calls_of_print_start [simp]: "calls_of (fst (print_start g d)) = [PrintStart]"
  by (cases d) (simp_all add: seq_ok)

lemma calls_of_print_item [simp]:
  "calls_of (fst (print_item d a1 a2 a3 a4 a5 a6 a7)) = [PrintItem a1 a2 a3 a4 a5 a6 a7]"
  by (cases d) (simp_all add: seq_ok)

lemma calls_of_print_end [simp]: "calls_of (fst (print_end d)) = [PrintEnd]"
  by (cases d) (simp_all add: seq_ok markdown_print_end_def rss_print_end_def calls_of_seq_nil)

section \<open>Replacement and escaping\<close>

text \<open>Replacing a one-character pattern rewrites the string character by character.\<close>

lemma str_replace_char:
  "str_replace [c] new s = concat (map (\<lambda>x. if x = c then new else [x]) s)"
proof (induction s)
  case Nil
  show ?case by (simp add: str_replace.simps)
next
  case (Cons x xs)
  then show ?case
    by (subst str_replace.simps) auto
qed

lemma concat_map_concat_map:
  "concat (map f (concat (map g s))) = concat (map (\<lambda>x. concat (map f (g x))) s)"
  by (induction s) simp_all

text \<open>The five replacements of \<^verbatim>\<open>html.escape\<close> amount to one pass over the characters.\<close>

lemma html_escape_chars: "html_escape s = concat (map escape_char s)"
proof -
  have "concat (map (\<lambda>x. if x = CHR 0x27 then ''&#x27;'' else [x])
          (concat (map (\<lambda>x. if x = CHR 0x22 then ''&quot;'' else [x])
            (concat (map (\<lambda>x. if x = CHR ''>'' then ''&gt;'' else [x])
              (concat (map (\<lambda>x. if x = CHR ''<'' then ''&lt;'' else [x])
                (concat (map (\<lambda>x. if x = CHR ''&'' then ''&amp;'' else [x]) [c]))))))))) =
        escape_char c" for c
    by (simp add: escape_char_def)
  then show ?thesis
    unfolding html_escape_def str_replace_char
    by (induction s) (simp_all add: concat_map_concat_map)
qed

lemma html_escape_Nil: "html_escape [] = []"
  by (simp add: html_escape_def str_replace_char)

lemma escape_char_no_markup:
  "CHR ''<'' \<notin> set (escape_char c) \<and> CHR ''>'' \<notin> set (escape_char c) \<and>
   CHR 0x22 \<notin> set (escape_char c) \<and> CHR 0x27 \<notin> set (escape_char c)"
  by (simp add: escape_char_def)

lemma html_escape_no_markup:
  "CHR ''<'' \<notin> set (html_escape s) \<and> CHR ''>'' \<notin> set (html_escape s) \<and>
   CHR 0x22 \<notin> set (html_escape s) \<and> CHR 0x27 \<notin> set (html_escape s)"
  using escape_char_no_markup by (auto simp: html_escape_chars)

lemma entity_starts_append_plain:
  "CHR ''&'' \<notin> set xs \<Longrightarrow> entity_starts (xs @ ys) = entity_starts ys"
  by (induction xs) auto

lemma entity_starts_escape_char:
  "entity_starts (escape_char c @ rest) = entity_starts rest"
  by (simp add: escape_char_def)

lemma html_escape_entities: "entity_starts (html_escape s)"
  unfolding html_escape_chars
  by (induction s) (simp_all add: entity_starts_escape_char del: entity_starts.simps(2))

section \<open>What the drivers write\<close>

lemma rss_item_text:
  "stdout_of (fst (print_item (RSSAlertDriver ti de la ur) (PStr h) (PStr lh) (PStr ds) e
      (PStr t) (PList []) (PStr guid))) =
   ''<item>\<newline><title>'' @ html_escape h @ ''</title>\<newline><description><pre>'' @
   html_escape lh @ ''\<newline>\<newline>'' @ html_escape ds @ ''</pre></description>\<newline><pubDate>'' @ t @
   ''</pubDate>\<newline><guid>'' @ guid @ ''</guid>\<newline></item>\<newline>''"
  by (simp add: rss_print_item_def seq_def print_def print_expr_def skip_def)

lemma markdown_item_text:
  "stdout_of (fst (print_item (MarkdownAlertDriver ti de la ur) (PStr h) (PStr lh) (PStr ds) e
      (PStr t) cs guid)) =
   ''## '' @ h @ '' (added '' @ t @ '')\<newline>'' @ lh @ ''\<newline>\<newline>'' @ double_newlines ds @ ''\<newline>\<newline>\<newline>''"
  by (simp add: markdown_print_item_def seq_def print_def print_expr_def str_replace_char
      double_newlines_def)

lemma print_item_ignores_effect:
  "stdout_of (fst (print_item d h lh ds e' t cs guid)) =
     stdout_of (fst (print_item d h lh ds e t cs guid))
   \<and> snd (print_item d h lh ds e' t cs guid) = snd (print_item d h lh ds e t cs guid)"
  by (cases d) (simp_all add: seq_ok markdown_print_item_def rss_print_item_def)

text \<open>Both drivers print an item whose arguments are strings, with no categories.\<close>

lemma print_item_strings_ok:
  "snd (print_item d (PStr h) (PStr lh) (PStr ds) e (PStr t) (PList []) (PStr guid)) = None"
  by (cases d)
     (simp_all add: snd_seq markdown_print_item_def rss_print_item_def print_expr_def)

lemma print_end_ok: "snd (print_end d) = None"
  by (cases d) (simp_all add: snd_seq markdown_print_end_def rss_print_end_def)

lemma rss_print_start_ok: "snd (print_start g (RSSAlertDriver t d l u)) = None"
  by (simp add: snd_seq rss_print_start_def)

lemma markdown_print_start_ok:
  "global_title g \<noteq> None \<Longrightarrow> global_desc g \<noteq> None \<Longrightarrow>
   snd (print_start g (MarkdownAlertDriver t d l u)) = None"
  by (auto simp: snd_seq markdown_print_start_def)

lemma print_start_ok:
  "global_title g \<noteq> None \<Longrightarrow> global_desc g \<noteq> None \<Longrightarrow> snd (print_start g d) = None"
  by (cases d) (auto simp: snd_seq markdown_print_start_def rss_print_start_def)

lemma rss_print_start_text:
  \<open>print_start g (RSSAlertDriver ti de la ur) =
     ([Call PrintStart,
       Stdout ''<?xml version="1.0" encoding="utf-8"?>\<newline>'',
       Stdout ''<rss version="2.0" xmlns:atom="http://www.w3.org/2005/Atom">\<newline>'',
       Stdout ''<channel>\<newline>'',
       Stdout (''<title>'' @ ti @ ''</title>\<newline>''),
       Stdout (''<description>'' @ de @ ''</description>\<newline>''),
       Stdout (''<language>'' @ la @ ''</language>\<newline>''),
       Stdout (''<link>'' @ ur @ ''</link>\<newline>'')], None)\<close>
  by (simp add: rss_print_start_def seq_def print_def skip_def)

lemma markdown_print_start_text:
  "print_start g (MarkdownAlertDriver ti de la ur) =
     (case global_title g of
        None \<Rightarrow> ([Call PrintStart], Some (NameError ''title''))
      | Some t \<Rightarrow>
          (case global_desc g of
             None \<Rightarrow> ([Call PrintStart, Stdout (''# '' @ t @ ''\<newline>'')], Some (NameError ''desc''))
           | Some d \<Rightarrow> ([Call PrintStart, Stdout (''# '' @ t @ ''\<newline>''), Stdout (d @ ''\<newline>'')], None)))"
  by (cases "global_title g"; cases "global_desc g")
     (simp_all add: markdown_print_start_def seq_def print_def raise_def)

subsection \<open>The Markdown item\<close>

text \<open>
  Claim C1. A call of the Markdown driver's \<^verbatim>\<open>print_item\<close> with strings \<open>h\<close>, \<open>lh\<close>,
  \<open>d\<close> and \<open>t\<close> for the header, the long header, the description and the date raises
  nothing and writes two chunks: the heading \<^verbatim>\<open>## h (added t)\<close> and its newline, then
  \<open>lh\<close>, a blank line, \<open>d\<close> with every newline doubled, and two blank lines after the
  end of that line. The description \<^verbatim>\<open>a\nb\<close> becomes \<^verbatim>\<open>a\n\nb\<close>.
\<close>

theorem markdown_print_item_text:
  "print_item (MarkdownAlertDriver ti de la ur) (PStr h) (PStr lh) (PStr d) effect (PStr t) categories guid =
     ([Call (PrintItem (PStr h) (PStr lh) (PStr d) effect (PStr t) categories guid),
       Stdout (''## '' @ h @ '' (added '' @ t @ '')'' @ ''\<newline>''),
       Stdout (lh @ ''\<newline>\<newline>'' @ double_newlines d @ ''\<newline>\<newline>'' @ ''\<newline>'')],
      None)
   \<and> double_newlines ''a\<newline>b'' = ''a\<newline>\<newline>b''"
  by (simp add: markdown_print_item_def seq_def print_expr_def print_def str_replace_char
      double_newlines_def)

text \<open>The theorem at a description of two lines.\<close>

theorem markdown_print_item_text_witness:
  "stdout_of (fst (print_item (MarkdownAlertDriver ''T'' ''D'' ''en_us'' ''U'')
      (PStr ''h'') (PStr ''lh'') (PStr ''a\<newline>b'') (PStr []) (PStr ''t'') (PList []) (PStr ''1''))) =
   ''## h (added t)\<newline>lh\<newline>\<newline>a\<newline>\<newline>b\<newline>\<newline>\<newline>''"
  using markdown_print_item_text [of "''T''" "''D''" "''en_us''" "''U''" "''h''" "''lh''"
      "''a\<newline>b''" "PStr []" "''t''" "PList []" "PStr ''1''"]
  by simp

subsection \<open>Escaping in the RSS item\<close>

text \<open>
  Claim C2. The RSS driver escapes the header, the long header and the description, but
  it writes each category as it is: the category \<^verbatim>\<open>a<b&c\<close> appears with its raw
  \<^verbatim>\<open><\<close> and \<^verbatim>\<open>&\<close> inside the \<^verbatim>\<open><category>\<close> element.
\<close>

theorem rss_category_not_escaped:
  "stdout_of (fst (print_item (RSSAlertDriver ''T'' ''D'' ''en_us'' ''U'')
      (PStr ''h'') (PStr ''lh'') (PStr ''d'') (PStr []) (PStr ''t'')
      (PList [PStr ''a<b&c'']) (PStr ''g''))) =
   ''<item>\<newline><title>h</title>\<newline><description><pre>lh\<newline>\<newline>d</pre></description>\<newline>'' @
   ''<pubDate>t</pubDate>\<newline><guid>g</guid>\<newline><category>a<b&c</category>\<newline></item>\<newline>''"
  by (simp add: rss_print_item_def seq_def print_def print_expr_def skip_def html_escape_def
      str_replace_char)

text \<open>
  What does hold: the \<^verbatim>\<open><title>\<close> element carries the escaped header, in which there
  is no \<^verbatim>\<open><\<close>, no \<^verbatim>\<open>>\<close> and no double quote, and every ampersand starts an
  entity.
\<close>

lemma rss_title_escaped:
  "\<exists>before after.
     stdout_of (fst (print_item (RSSAlertDriver ti de la ur) (PStr h) (PStr lh) (PStr ds) e
        (PStr t) (PList []) (PStr guid))) =
       before @ ''<title>'' @ html_escape h @ ''</title>'' @ after
     \<and> CHR ''<'' \<notin> set (html_escape h) \<and> CHR ''>'' \<notin> set (html_escape h)
     \<and> CHR 0x22 \<notin> set (html_escape h) \<and> entity_starts (html_escape h)"
proof -
  have "stdout_of (fst (print_item (RSSAlertDriver ti de la ur) (PStr h) (PStr lh) (PStr ds) e
        (PStr t) (PList []) (PStr guid))) =
       ''<item>\<newline>'' @ ''<title>'' @ html_escape h @ ''</title>'' @
       (''\<newline><description><pre>'' @
        html_escape lh @ ''\<newline>\<newline>'' @ html_escape ds @ ''</pre></description>\<newline><pubDate>'' @ t @
        ''</pubDate>\<newline><guid>'' @ guid @ ''</guid>\<newline></item>\<newline>'')"
    by (simp add: rss_item_text del: print_item.simps)
  with html_escape_no_markup [of h] html_escape_entities [of h] show ?thesis
    by blast
qed

subsection \<open>The preamble\<close>

text \<open>
  Claim C7. The preamble of the Markdown driver does not come from the fields captured at
  construction: \<^verbatim>\<open>print_start\<close> reads the module's globals \<^verbatim>\<open>title\<close> and \<^verbatim>\<open>desc\<close>.
  Two Markdown drivers constructed with different titles and descriptions print the same
  preamble, the one of the globals, and with the globals unbound the call raises
  \<^verbatim>\<open>NameError\<close>.
\<close>

theorem markdown_print_start_ignores_fields:
  "stdout_of (fst (print_start
      \<lparr>API_KEY = None, global_title = Some ''T'', global_desc = Some ''D'', global_driver = None\<rparr>
      (MarkdownAlertDriver ''A'' ''a'' ''en_us'' ''u''))) = ''# T\<newline>D\<newline>''
   \<and> stdout_of (fst (print_start
      \<lparr>API_KEY = None, global_title = Some ''T'', global_desc = Some ''D'', global_driver = None\<rparr>
      (MarkdownAlertDriver ''B'' ''b'' ''en_us'' ''u''))) = ''# T\<newline>D\<newline>''
   \<and> print_start
      \<lparr>API_KEY = None, global_title = None, global_desc = None, global_driver = None\<rparr>
      (MarkdownAlertDriver ''A'' ''a'' ''en_us'' ''u'') = ([Call PrintStart], Some (NameError ''title''))"
  by (simp add: markdown_print_start_def seq_def print_def raise_def)

section \<open>The request string\<close>

lemma alerts_req_str_join:
  "alerts_req_str api_key route time = ''alerts'' @ join_query (query_params time api_key route)"
  by (cases time; cases api_key; cases route) (simp_all add: alerts_req_str_def query_params_def)

text \<open>
  Claim C3. The request string of \<^verbatim>\<open>get_alerts\<close> is \<^verbatim>\<open>alerts\<close> followed by the
  parameters that are present, in the order \<^verbatim>\<open>filter[datetime]\<close>, \<^verbatim>\<open>api_key\<close>,
  \<^verbatim>\<open>filter[route]\<close>, the first after a question mark and each later one after an
  ampersand. A route \<^verbatim>\<open>Red\<close> alone gives \<^verbatim>\<open>alerts?filter[route]=Red\<close>; the time
  \<^verbatim>\<open>2021-01-01\<close> with the key \<^verbatim>\<open>k\<close> gives
  \<^verbatim>\<open>alerts?filter[datetime]=2021-01-01&api_key=k\<close>. Once \<^verbatim>\<open>print_start\<close> has returned,
  \<^verbatim>\<open>get_alerts\<close> sends exactly one request, for this string.
\<close>

theorem alerts_query_string:
  "alerts_req_str api_key route time = ''alerts'' @ join_query (query_params time api_key route)
   \<and> alerts_req_str None (Some ''Red'') None = ''alerts?filter[route]=Red''
   \<and> alerts_req_str (Some ''k'') None (Some ''2021-01-01'') =
       ''alerts?filter[datetime]=2021-01-01&api_key=k''
   \<and> (snd (print_start g driver) = None \<longrightarrow>
        requests_of (fst (get_alerts g api driver route time)) =
          [''https://api-v3.mbta.com/'' @ alerts_req_str (API_KEY g) route time])"
proof (intro conjI impI)
  show "alerts_req_str api_key route time =
          ''alerts'' @ join_query (query_params time api_key route)"
    by (rule alerts_req_str_join)
  show "alerts_req_str None (Some ''Red'') None = ''alerts?filter[route]=Red''"
    by (simp add: alerts_req_str_def)
  show "alerts_req_str (Some ''k'') None (Some ''2021-01-01'') =
          ''alerts?filter[datetime]=2021-01-01&api_key=k''"
    by (simp add: alerts_req_str_def)
next
  assume ok: "snd (print_start g driver) = None"
  show "requests_of (fst (get_alerts g api driver route time)) =
          [''https://api-v3.mbta.com/'' @ alerts_req_str (API_KEY g) route time]"
    using ok
    by (auto simp: get_alerts_def retrieve_from_api_def requests_of_seq seq_ok
        split: sum.splits)
qed

text \<open>The theorem with all three parameters present.\<close>

theorem alerts_query_string_witness:
  "requests_of (fst (get_alerts
      \<lparr>API_KEY = Some ''k'', global_title = None, global_desc = None, global_driver = None\<rparr>
      (\<lambda>u. Inl RequestError) (RSSAlertDriver ''T'' ''D'' ''en_us'' ''U'') (Some ''Red'')
      (Some ''2021-01-01''))) =
   [''https://api-v3.mbta.com/alerts?filter[datetime]=2021-01-01&api_key=k&filter[route]=Red'']"
proof -
  have ok: "snd (print_start
      \<lparr>API_KEY = Some ''k'', global_title = None, global_desc = None, global_driver = None\<rparr>
      (RSSAlertDriver ''T'' ''D'' ''en_us'' ''U'')) = None"
    by (simp add: rss_print_start_def seq_def print_def skip_def)
  show ?thesis
    using ok alerts_query_string [of "Some ''k''" "Some ''Red''" "Some ''2021-01-01''"
      "\<lparr>API_KEY = Some ''k'', global_title = None, global_desc = None, global_driver = None\<rparr>"
      "RSSAlertDriver ''T'' ''D'' ''en_us'' ''U''" "\<lambda>u. Inl RequestError"]
    by (simp add: alerts_req_str_def)
qed

section \<open>Timestamps and their format\<close>

lemma show_nat_small: "n < 10 \<Longrightarrow> show_nat n = [digit_char n]"
  by (subst show_nat.simps) simp

lemma show_nat_step: "10 \<le> n \<Longrightarrow> show_nat n = show_nat (n div 10) @ [digit_char (n mod 10)]"
  by (subst show_nat.simps) simp

lemma digit_char_numerals:
  "digit_char 0 = CHR ''0''" "digit_char 1 = CHR ''1''" "digit_char 2 = CHR ''2''"
  "digit_char 3 = CHR ''3''" "digit_char 4 = CHR ''4''" "digit_char 5 = CHR ''5''"
  "digit_char 6 = CHR ''6''" "digit_char 7 = CHR ''7''" "digit_char 8 = CHR ''8''"
  "digit_char 9 = CHR ''9''" "digit_char (Suc 0) = CHR ''1''"
  by code_simp+

lemma show_nat_2: "10 \<le> n \<Longrightarrow> n < 100 \<Longrightarrow> show_nat n = [digit_char (n div 10), digit_char (n mod 10)]"
  by (simp add: show_nat_step show_nat_small)

lemma show_nat_3:
  assumes "100 \<le> n" "n < 1000"
  shows "show_nat n = [digit_char (n div 100), digit_char (n div 10 mod 10), digit_char (n mod 10)]"
proof -
  from assms have a: "10 \<le> n" "10 \<le> n div 10" "n div 10 < 100" by simp_all
  have b: "n div 10 div 10 = n div 100" by (simp add: div_mult2_eq [symmetric])
  show ?thesis
    by (simp add: show_nat_step [OF a(1)] show_nat_2 [OF a(2) a(3)] b)
qed

lemma show_nat_4:
  assumes "1000 \<le> n" "n < 10000"
  shows "show_nat n = [digit_char (n div 1000), digit_char (n div 100 mod 10),
                       digit_char (n div 10 mod 10), digit_char (n mod 10)]"
proof -
  from assms have a: "10 \<le> n" "100 \<le> n div 10" "n div 10 < 1000" by simp_all
  have b: "n div 10 div 100 = n div 1000" "n div 10 div 10 = n div 100"
    by (simp_all add: div_mult2_eq [symmetric])
  show ?thesis
    by (simp add: show_nat_step [OF a(1)] show_nat_3 [OF a(2) a(3)] b)
qed

lemma zero_pad_two: "n < 100 \<Longrightarrow> zero_pad 2 (show_nat n) = two_digits n"
proof (cases "n < 10")
  case True
  then show ?thesis
    by (simp add: show_nat_small zero_pad_def two_digits_def digit_char_numerals)
next
  case False
  assume "n < 100"
  with False have "show_nat n = [digit_char (n div 10), digit_char (n mod 10)]"
    by (intro show_nat_2) simp_all
  then show ?thesis
    by (simp add: zero_pad_def two_digits_def)
qed

lemma zero_pad_four: "n < 10000 \<Longrightarrow> zero_pad 4 (show_nat n) = four_digits n"
proof -
  assume n: "n < 10000"
  consider "n < 10" | "10 \<le> n" "n < 100" | "100 \<le> n" "n < 1000" | "1000 \<le> n"
    by linarith
  then show ?thesis
  proof cases
    case 1
    then have "show_nat n = [digit_char n]" by (rule show_nat_small)
    with 1 show ?thesis
      by (simp add: zero_pad_def four_digits_def digit_char_numerals replicate_Suc numeral_3_eq_3)
  next
    case 2
    then have "show_nat n = [digit_char (n div 10), digit_char (n mod 10)]" by (rule show_nat_2)
    with 2 show ?thesis
      by (simp add: zero_pad_def four_digits_def digit_char_numerals numeral_2_eq_2)
  next
    case 3
    then have "show_nat n = [digit_char (n div 100), digit_char (n div 10 mod 10), digit_char (n mod 10)]"
      by (rule show_nat_3)
    with 3 show ?thesis
      by (simp add: zero_pad_def four_digits_def digit_char_numerals)
  next
    case 4
    with n have "show_nat n = [digit_char (n div 1000), digit_char (n div 100 mod 10),
                       digit_char (n div 10 mod 10), digit_char (n mod 10)]"
      by (intro show_nat_4)
    then show ?thesis
      by (simp add: zero_pad_def four_digits_def)
  qed
qed

lemma hour12_mod: "h < 24 \<Longrightarrow> (if h mod 12 = 0 then 12 else h mod 12) = hour12 h"
  by (auto simp: hour12_def mod_if)


lemma days_in_month_le: "days_in_month y m \<le> 31"
  by (simp add: days_in_month_def)

text \<open>
  On a date that the constructor accepts, the format string of the script produces the
  reference format.
\<close>

lemma strftime_format:
  assumes "valid_datetime dt"
  shows "strftime dt ''%m-%d-%Y %I:%M %p'' = spec_date dt"
proof -
  from assms have m: "month dt < 100" and y: "year dt < 10000" and h: "hour dt < 24"
    and mi: "minute dt < 100"
    by (simp_all add: valid_datetime_def)
  from assms have "day dt \<le> days_in_month (year dt) (month dt)"
    by (simp add: valid_datetime_def)
  with days_in_month_le [of "year dt" "month dt"] have d: "day dt < 100" by linarith
  from h have h12: "hour12 (hour dt) < 100" by (auto simp: hour12_def)
  show ?thesis
    using h
    by (simp add: directive_def spec_date_def zero_pad_two [OF m] zero_pad_two [OF d]
        zero_pad_four [OF y] zero_pad_two [OF mi] hour12_mod zero_pad_two [OF h12])
qed

lemma make_datetime_valid: "make_datetime d t = Inr dt \<Longrightarrow> valid_datetime dt"
proof -
  assume a: "make_datetime d t = Inr dt"
  obtain y mo dd where d: "d = (y, mo, dd)" by (cases d) auto
  obtain h mi s us tz where t: "t = (h, mi, s, us, tz)" by (cases t) auto
  define r where "r = \<lparr>year = y, month = mo, day = dd, hour = h, minute = mi, second = s,
                  microsecond = us, utcoffset = tz\<rparr>"
  have "make_datetime d t = (if valid_datetime r then Inr r else Inl ValueError)"
    unfolding make_datetime_def d t r_def by (simp add: Let_def)
  with a show ?thesis by (cases "valid_datetime r") simp_all
qed

lemma fromisoformat_str_valid: "fromisoformat_str s = Inr dt \<Longrightarrow> valid_datetime dt"
  by (auto simp: fromisoformat_str_def split: option.splits if_splits dest: make_datetime_valid)

lemma fromisoformat_cases:
  "fromisoformat v = Inr dt \<Longrightarrow> \<exists>s. v = PStr s \<and> fromisoformat_str s = Inr dt"
  by (cases v) simp_all

lemma parse_time_example:
  "parse_isoformat_time ''14:30:00-05:00'' = Some (14, 30, 0, 0, Some (- 18000000000))"
proof -
  have hms: "parse_hh_mm_ss_ff ''14:30:00'' = Some (14, 30, 0, 0)"
    by (simp add: parse_hh_mm_ss_ff_def parse_digits_def is_digit_def digit_val_def expect_def
        parse_fraction_def)
  have pos: "tz_pos ''14:30:00-05:00'' = Some 8"
    by (simp add: tz_pos_def find_char_def)
  have tz: "parse_tz (CHR ''-'') ''05:00'' = Some (- 18000000000)"
    by (simp add: parse_tz_def parse_hh_mm_ss_ff_def parse_digits_def is_digit_def digit_val_def
        expect_def parse_fraction_def)
  show ?thesis
    by (simp add: parse_isoformat_time_def hms pos tz)
qed

lemma fromisoformat_example:
  "fromisoformat_str ''2021-03-05T14:30:00-05:00'' =
     Inr \<lparr>year = 2021, month = 3, day = 5, hour = 14, minute = 30, second = 0,
          microsecond = 0, utcoffset = Some (- 18000000000)\<rparr>"
proof -
  have d: "parse_isoformat_date ''2021-03-05'' = Some (2021, 3, 5)"
    by (simp add: parse_isoformat_date_def parse_digits_def is_digit_def digit_val_def
        expect_def)
  have m: "make_datetime (2021, 3, 5) (14, 30, 0, 0, Some (- 18000000000)) =
     Inr \<lparr>year = 2021, month = 3, day = 5, hour = 14, minute = 30, second = 0,
          microsecond = 0, utcoffset = Some (- 18000000000)\<rparr>"
    by (simp add: make_datetime_def valid_datetime_def days_in_month_def)
  show ?thesis
    by (simp add: fromisoformat_str_def d m parse_time_example)
qed

lemma spec_date_example:
  "spec_date \<lparr>year = 2021, month = 3, day = 5, hour = 14, minute = 30, second = 0,
          microsecond = 0, utcoffset = Some (- 18000000000)\<rparr> = ''03-05-2021 02:30 PM''"
  by (simp add: spec_date_def two_digits_def four_digits_def hour12_def digit_char_numerals)

section \<open>The mapper\<close>

lemma effect_arg_Inr:
  "(if eff \<noteq> PNone then map_sum id PStr (concat_str [Inr ''Effect: '', str_of eff])
    else Inr (PStr [])) = Inr e \<longleftrightarrow>
   (eff = PNone \<and> e = PStr []) \<or> (\<exists>s. eff = PStr s \<and> e = PStr (''Effect: '' @ s))"
  by (cases eff) auto

text \<open>When the body of the loop reaches the call of the driver, and with which arguments.\<close>

lemma alert_item_args_Inr:
  "alert_item_args alert = Inr (h, lh, d, e, date, c, guid) \<longleftrightarrow>
     (\<exists>attributes created dt description eff.
        subscript alert ''attributes'' = Inr attributes \<and>
        subscript alert ''id'' = Inr guid \<and>
        subscript attributes ''short_header'' = Inr h \<and>
        subscript attributes ''header'' = Inr lh \<and>
        subscript attributes ''created_at'' = Inr created \<and>
        fromisoformat created = Inr dt \<and>
        date = PStr (strftime dt ''%m-%d-%Y %I:%M %p'') \<and>
        subscript attributes ''description'' = Inr description \<and>
        d = (if description \<noteq> PNone then description else PStr []) \<and>
        subscript attributes ''effect'' = Inr eff \<and>
        ((eff = PNone \<and> e = PStr []) \<or> (\<exists>s. eff = PStr s \<and> e = PStr (''Effect: '' @ s))) \<and>
        c = PList [])"
  unfolding alert_item_args_def bind_err_eq_Inr Let_def effect_arg_Inr
  by auto

lemma absorbed_only_null:
  assumes "alert_item_args a = Inr (h, lh, ds, e, t, cs, guid)"
    and "subscript a ''attributes'' = Inr at"
  shows "\<exists>v w. subscript at ''description'' = Inr v \<and> subscript at ''effect'' = Inr w \<and>
           ds = (if v = PNone then PStr [] else v) \<and>
           (w = PNone \<and> e = PStr [] \<or> (\<exists>s. w = PStr s \<and> e = PStr (''Effect: '' @ s)))"
proof -
  from assms obtain description eff
    where d: "subscript at ''description'' = Inr description"
      and ds: "ds = (if description \<noteq> PNone then description else PStr [])"
      and ef: "subscript at ''effect'' = Inr eff"
      and e: "(eff = PNone \<and> e = PStr []) \<or> (\<exists>s. eff = PStr s \<and> e = PStr (''Effect: '' @ s))"
    unfolding alert_item_args_Inr by auto
  from ds have "ds = (if description = PNone then PStr [] else description)" by simp
  with d ef e show ?thesis by blast
qed

lemma has_str_iff: "has_str v k \<longleftrightarrow> (\<exists>s. subscript v k = Inr (PStr s))"
  by (auto simp: has_str_def split: sum.splits pyval.splits)

lemma has_str_or_none_iff:
  "has_str_or_none v k \<longleftrightarrow> subscript v k = Inr PNone \<or> (\<exists>s. subscript v k = Inr (PStr s))"
  by (auto simp: has_str_or_none_def split: sum.splits pyval.splits)

lemma has_timestamp_iff:
  "has_timestamp v k \<longleftrightarrow> (\<exists>s dt. subscript v k = Inr (PStr s) \<and> fromisoformat_str s = Inr dt)"
proof (cases "subscript v k")
  case (Inl e)
  then show ?thesis by (simp add: has_timestamp_def)
next
  case (Inr x)
  show ?thesis
  proof (cases x)
    case (PStr s)
    with Inr show ?thesis
      by (cases "fromisoformat_str s") (simp_all add: has_timestamp_def)
  qed (simp_all add: Inr has_timestamp_def)
qed

lemma wf_alert_iff:
  "wf_alert alert \<longleftrightarrow>
     (\<exists>attributes. subscript alert ''attributes'' = Inr attributes \<and>
        has_str alert ''id'' \<and> has_str attributes ''short_header'' \<and>
        has_str attributes ''header'' \<and> has_timestamp attributes ''created_at'' \<and>
        has_str_or_none attributes ''description'' \<and> has_str_or_none attributes ''effect'')"
  by (auto simp: wf_alert_def split: sum.splits)

lemma wf_alert_args:
  assumes "wf_alert alert"
  shows "\<exists>h lh d e t guid.
           alert_item_args alert =
             Inr (PStr h, PStr lh, PStr d, PStr e, PStr t, PList [], PStr guid) \<and>
           expected_item alert =
             PrintItem (PStr h) (PStr lh) (PStr d) (PStr e) (PStr t) (PList []) (PStr guid)"
proof -
  from assms obtain attributes guid h lh s dt
    where a: "subscript alert ''attributes'' = Inr attributes"
      and g: "subscript alert ''id'' = Inr (PStr guid)"
      and h: "subscript attributes ''short_header'' = Inr (PStr h)"
      and lh: "subscript attributes ''header'' = Inr (PStr lh)"
      and c: "subscript attributes ''created_at'' = Inr (PStr s)"
      and dt: "fromisoformat_str s = Inr dt"
      and d: "has_str_or_none attributes ''description''"
      and e: "has_str_or_none attributes ''effect''"
    unfolding wf_alert_iff has_str_iff has_timestamp_iff by blast
  from dt have fmt: "strftime dt ''%m-%d-%Y %I:%M %p'' = spec_date dt"
    by (intro strftime_format fromisoformat_str_valid)
  from d e show ?thesis
    unfolding has_str_or_none_iff
    by (elim disjE exE)
       (simp_all add: alert_item_args_def expected_item_def attribute_def spec_date_of_def
          a g h lh c dt fmt Let_def del: strftime.simps)
qed


lemma alerts_loop_wf:
  "list_all wf_alert items \<Longrightarrow>
   calls_of (fst (alerts_loop d items)) = map expected_item items \<and>
   snd (alerts_loop d items) = None"
proof (induction items)
  case Nil
  then show ?case by simp
next
  case (Cons alert rest)
  from Cons.prems have "wf_alert alert" and rest: "list_all wf_alert rest" by simp_all
  from wf_alert_args [OF this(1)] obtain h lh ds e t guid
    where args: "alert_item_args alert =
                   Inr (PStr h, PStr lh, PStr ds, PStr e, PStr t, PList [], PStr guid)"
      and item: "expected_item alert =
                   PrintItem (PStr h) (PStr lh) (PStr ds) (PStr e) (PStr t) (PList []) (PStr guid)"
    by blast
  from Cons.IH [OF rest] show ?case
    by (simp add: args item calls_of_seq snd_seq print_item_strings_ok)
qed

lemma alerts_loop_stops:
  assumes "list_all wf_alert pre" and "alert_item_args alert = Inl e"
  shows "calls_of (fst (alerts_loop d (pre @ alert # post))) = map expected_item pre
         \<and> snd (alerts_loop d (pre @ alert # post)) = Some e"
  using assms(1)
proof (induction pre)
  case Nil
  with assms(2) show ?case by simp
next
  case (Cons a pre)
  from Cons.prems have "wf_alert a" and rest: "list_all wf_alert pre" by simp_all
  from wf_alert_args [OF this(1)] obtain h lh ds e t guid
    where args: "alert_item_args a =
                   Inr (PStr h, PStr lh, PStr ds, PStr e, PStr t, PList [], PStr guid)"
      and item: "expected_item a =
                   PrintItem (PStr h) (PStr lh) (PStr ds) (PStr e) (PStr t) (PList []) (PStr guid)"
    by blast
  from Cons.IH [OF rest] show ?case
    by (simp add: args item calls_of_seq snd_seq print_item_strings_ok)
qed

lemma get_alerts_unfold:
  assumes "snd (print_start g d) = None"
    and "api (''https://api-v3.mbta.com/'' @ alerts_req_str (API_KEY g) route time) = Inr response"
    and "subscript response ''data'' = Inr (PList items)"
  shows "calls_of (fst (get_alerts g api d route time)) =
           PrintStart # calls_of (fst (alerts_loop d items)) @
           (if snd (alerts_loop d items) = None then [PrintEnd] else [])"
    and "snd (get_alerts g api d route time) =
           (if snd (alerts_loop d items) = None then None else snd (alerts_loop d items))"
  using assms
  by (simp_all add: get_alerts_def retrieve_from_api_def calls_of_seq snd_seq seq_ok
      print_end_ok)


text \<open>The sample record.\<close>

lemma wf_example_alert: "wf_alert example_alert"
  by (simp add: wf_alert_def example_alert_def has_str_def has_str_or_none_def
      has_timestamp_def fromisoformat_example)

lemma example_alert_args:
  "alert_item_args example_alert =
     Inr (PStr ''Delay'', PStr ''Red Line delay'', PStr [], PStr [],
          PStr ''03-05-2021 02:30 PM'', PList [], PStr ''42'')"
proof -
  have "valid_datetime \<lparr>year = 2021, month = 3, day = 5, hour = 14, minute = 30, second = 0,
          microsecond = 0, utcoffset = Some (- 18000000000)\<rparr>"
    using fromisoformat_example by (rule fromisoformat_str_valid)
  then show ?thesis
    by (simp add: alert_item_args_def example_alert_def fromisoformat_example strftime_format
        spec_date_example del: strftime.simps)
qed

lemma example_expected_item:
  "expected_item example_alert =
     PrintItem (PStr ''Delay'') (PStr ''Red Line delay'') (PStr []) (PStr [])
       (PStr ''03-05-2021 02:30 PM'') (PList []) (PStr ''42'')"
  by (simp add: expected_item_def attribute_def spec_date_of_def example_alert_def
      fromisoformat_example spec_date_example)


subsection \<open>The date of an item\<close>



subsection \<open>The sequence of calls\<close>

text \<open>
  Claim C6. When \<^verbatim>\<open>print_start\<close> returns, the service answers and every record of the
  \<^verbatim>\<open>data\<close> list is an alert record, \<^verbatim>\<open>get_alerts\<close> enters \<^verbatim>\<open>print_start\<close> once,
  then \<^verbatim>\<open>print_item\<close> once for each record, in the order of the list and with the
  arguments the specification prescribes for that record, then \<^verbatim>\<open>print_end\<close> once,
  and it raises nothing. \<^verbatim>\<open>print_start\<close> returns for every RSS driver, and for a Markdown
  driver when the globals \<^verbatim>\<open>title\<close> and \<^verbatim>\<open>desc\<close> are bound, as the main block binds
  them.
\<close>

theorem get_alerts_call_sequence:
  assumes "snd (print_start g driver) = None"
    and "api (''https://api-v3.mbta.com/'' @ alerts_req_str (API_KEY g) route time) = Inr response"
    and "subscript response ''data'' = Inr (PList records)"
    and "list_all wf_alert records"
  shows "calls_of (fst (get_alerts g api driver route time)) =
           PrintStart # map expected_item records @ [PrintEnd]
         \<and> snd (get_alerts g api driver route time) = None"
  using get_alerts_unfold [where api = api and g = g and route = route and time = time,
      OF assms(1-3)] alerts_loop_wf [OF assms(4), of driver]
  by simp

text \<open>The theorem on the run of the RSS driver over the sample record.\<close>

theorem get_alerts_call_sequence_witness:
  "calls_of (fst (get_alerts example_globals example_upstream
      (RSSAlertDriver ''T'' ''D'' ''en_us'' ''U'') None None)) =
     [PrintStart,
      PrintItem (PStr ''Delay'') (PStr ''Red Line delay'') (PStr []) (PStr [])
        (PStr ''03-05-2021 02:30 PM'') (PList []) (PStr ''42''),
      PrintEnd]
   \<and> snd (get_alerts example_globals example_upstream
      (RSSAlertDriver ''T'' ''D'' ''en_us'' ''U'') None None) = None"
proof -
  have 1: "snd (print_start example_globals (RSSAlertDriver ''T'' ''D'' ''en_us'' ''U'')) = None"
    by (rule rss_print_start_ok)
  have 2: "example_upstream (''https://api-v3.mbta.com/'' @
             alerts_req_str (API_KEY example_globals) None None) =
           Inr (PDict [(''data'', PList [example_alert])])"
    by (simp add: example_upstream_def)
  have 3: "subscript (PDict [(''data'', PList [example_alert])]) ''data'' =
             Inr (PList [example_alert])"
    by simp
  have 4: "list_all wf_alert [example_alert]"
    by (simp add: wf_example_alert)
  from get_alerts_call_sequence [where api = example_upstream and g = example_globals
      and route = None and time = None, OF 1 2 3 4] show ?thesis
    by (simp add: example_expected_item)
qed

subsection \<open>A missing key\<close>

lemma subscript_PDict_cases:
  "subscript (PDict kvs) k = Inl (KeyError k) \<and> map_of kvs k = None \<or>
   (\<exists>v. subscript (PDict kvs) k = Inr v \<and> map_of kvs k = Some v)"
  by (cases "map_of kvs k") simp_all

lemma subscript_Inr_PDict: "subscript v k = Inr x \<Longrightarrow> \<exists>kvs. v = PDict kvs"
  by (cases v) simp_all

lemma missing_key_args:
  assumes attrs: "subscript alert ''attributes'' = Inr (PDict attrs)"
    and created: "\<forall>v. map_of attrs ''created_at'' = Some v \<longrightarrow> (\<exists>dt. fromisoformat v = Inr dt)"
    and missing: "map_of attrs ''description'' = None \<or> map_of attrs ''effect'' = None"
  shows "\<exists>k. alert_item_args alert = Inl (KeyError k)"
proof -
  from subscript_Inr_PDict [OF attrs] obtain kvs where alert: "alert = PDict kvs" by blast
  note c = subscript_PDict_cases
  from c [of kvs "''id''"] c [of attrs "''short_header''"] c [of attrs "''header''"]
    c [of attrs "''created_at''"] c [of attrs "''description''"] c [of attrs "''effect''"]
    created missing attrs
  show ?thesis
    unfolding alert_item_args_def alert Let_def
    by (elim disjE conjE exE) (auto simp del: subscript.simps)
qed

lemma missing_key_which:
  assumes attrs: "subscript alert ''attributes'' = Inr (PDict attrs)"
    and rest: "has_str alert ''id''" "has_str (PDict attrs) ''short_header''"
      "has_str (PDict attrs) ''header''" "has_timestamp (PDict attrs) ''created_at''"
    and missing: "map_of attrs ''description'' = None \<or> map_of attrs ''effect'' = None"
  shows "alert_item_args alert =
           Inl (KeyError (if map_of attrs ''description'' = None
                          then ''description'' else ''effect''))"
proof -
  from rest obtain guid h lh s dt
    where "subscript alert ''id'' = Inr (PStr guid)"
      and "subscript (PDict attrs) ''short_header'' = Inr (PStr h)"
      and "subscript (PDict attrs) ''header'' = Inr (PStr lh)"
      and "subscript (PDict attrs) ''created_at'' = Inr (PStr s)"
      and "fromisoformat_str s = Inr dt"
    unfolding has_str_iff has_timestamp_iff by blast
  with attrs missing subscript_PDict_cases [of attrs "''description''"]
    subscript_PDict_cases [of attrs "''effect''"]
  show ?thesis
    unfolding alert_item_args_def Let_def
    by (elim disjE conjE exE) (auto simp del: subscript.simps)
qed

text \<open>
  Claim C10. Let the records before one record be alert records, and let the attributes
  of that record lack \<^verbatim>\<open>description\<close> or \<^verbatim>\<open>effect\<close>, its \<^verbatim>\<open>created_at\<close>, if it has
  one, being a timestamp that \<^verbatim>\<open>fromisoformat\<close> accepts. Then \<^verbatim>\<open>get_alerts\<close> ends
  with a \<^verbatim>\<open>KeyError\<close>, after the calls of \<^verbatim>\<open>print_item\<close> for the records before and
  with no call for this record, for a later one, or of \<^verbatim>\<open>print_end\<close>. When the other
  fields of the record are there, the key of the error is \<^verbatim>\<open>description\<close>, or
  \<^verbatim>\<open>effect\<close> when only that one is missing. Whenever the arguments of
  \<^verbatim>\<open>print_item\<close> are produced, both keys are present, and the description passed is
  the empty string in place of \<^verbatim>\<open>None\<close> and the value of the key otherwise.
\<close>

theorem missing_key_raises:
  assumes start: "snd (print_start g driver) = None"
    and resp: "api (''https://api-v3.mbta.com/'' @ alerts_req_str (API_KEY g) route time) =
                 Inr response"
    and data: "subscript response ''data'' = Inr (PList (pre @ alert # post))"
    and pre: "list_all wf_alert pre"
    and attrs: "subscript alert ''attributes'' = Inr (PDict attrs)"
    and created: "\<forall>v. map_of attrs ''created_at'' = Some v \<longrightarrow> (\<exists>dt. fromisoformat v = Inr dt)"
    and missing: "map_of attrs ''description'' = None \<or> map_of attrs ''effect'' = None"
  shows "(\<exists>k. snd (get_alerts g api driver route time) = Some (KeyError k))
         \<and> calls_of (fst (get_alerts g api driver route time)) = PrintStart # map expected_item pre
         \<and> (has_str alert ''id'' \<and> has_str (PDict attrs) ''short_header'' \<and>
             has_str (PDict attrs) ''header'' \<and> has_timestamp (PDict attrs) ''created_at'' \<longrightarrow>
            snd (get_alerts g api driver route time) =
              Some (KeyError (if map_of attrs ''description'' = None
                              then ''description'' else ''effect'')))
         \<and> (\<forall>a at h lh ds e t cs guid.
               alert_item_args a = Inr (h, lh, ds, e, t, cs, guid) \<and>
               subscript a ''attributes'' = Inr at \<longrightarrow>
               (\<exists>v w. subscript at ''description'' = Inr v \<and> subscript at ''effect'' = Inr w \<and>
                  ds = (if v = PNone then PStr [] else v) \<and>
                  (w = PNone \<and> e = PStr [] \<or> (\<exists>s. w = PStr s \<and> e = PStr (''Effect: '' @ s)))))"
proof -
  from missing_key_args [OF attrs created missing] obtain k
    where k: "alert_item_args alert = Inl (KeyError k)"
    by blast
  note loop = alerts_loop_stops [OF pre k, of driver post]
  note run = get_alerts_unfold [where api = api and g = g and route = route and time = time,
      OF start resp data]
  have 1: "snd (get_alerts g api driver route time) = Some (KeyError k)"
    using run(2) loop by simp
  have 2: "calls_of (fst (get_alerts g api driver route time)) = PrintStart # map expected_item pre"
    using run(1) loop by simp
  have 3: "snd (get_alerts g api driver route time) =
              Some (KeyError (if map_of attrs ''description'' = None
                              then ''description'' else ''effect''))"
    if "has_str alert ''id'' \<and> has_str (PDict attrs) ''short_header'' \<and>
        has_str (PDict attrs) ''header'' \<and> has_timestamp (PDict attrs) ''created_at''"
    using missing_key_which [OF attrs _ _ _ _ missing] that k 1 by simp
  show ?thesis
  proof (intro conjI impI allI)
    from 1 show "\<exists>k. snd (get_alerts g api driver route time) = Some (KeyError k)" by blast
    from 2 show "calls_of (fst (get_alerts g api driver route time)) =
                   PrintStart # map expected_item pre" .
  next
    assume "has_str alert ''id'' \<and> has_str (PDict attrs) ''short_header'' \<and>
        has_str (PDict attrs) ''header'' \<and> has_timestamp (PDict attrs) ''created_at''"
    then show "snd (get_alerts g api driver route time) =
              Some (KeyError (if map_of attrs ''description'' = None
                              then ''description'' else ''effect''))"
      by (rule 3)
  next
    fix a at h lh ds e t cs guid
    assume a: "alert_item_args a = Inr (h, lh, ds, e, t, cs, guid) \<and>
               subscript a ''attributes'' = Inr at"
    from absorbed_only_null [OF a [THEN conjunct1] a [THEN conjunct2]]
    show "\<exists>v w. subscript at ''description'' = Inr v \<and> subscript at ''effect'' = Inr w \<and>
           ds = (if v = PNone then PStr [] else v) \<and>
           (w = PNone \<and> e = PStr [] \<or> (\<exists>s. w = PStr s \<and> e = PStr (''Effect: '' @ s)))" .
  qed
qed

text \<open>The theorem on three records, the second without a description.\<close>

theorem missing_key_raises_witness:
  "snd (get_alerts example_globals example_upstream_missing
          (RSSAlertDriver ''T'' ''D'' ''en_us'' ''U'') None None) = Some (KeyError ''description'')
   \<and> calls_of (fst (get_alerts example_globals example_upstream_missing
          (RSSAlertDriver ''T'' ''D'' ''en_us'' ''U'') None None)) =
       [PrintStart,
        PrintItem (PStr ''Delay'') (PStr ''Red Line delay'') (PStr []) (PStr [])
          (PStr ''03-05-2021 02:30 PM'') (PList []) (PStr ''42'')]"
proof -
  let ?attrs = "[(''short_header'', PStr ''Detour''), (''header'', PStr ''Bus 1 detour''),
                 (''created_at'', PStr ''2021-03-05T14:30:00-05:00''),
                 (''effect'', PStr ''DETOUR'')]"
  have 1: "snd (print_start example_globals (RSSAlertDriver ''T'' ''D'' ''en_us'' ''U'')) = None"
    by (rule rss_print_start_ok)
  have 2: "example_upstream_missing (''https://api-v3.mbta.com/'' @
             alerts_req_str (API_KEY example_globals) None None) =
           Inr (PDict [(''data'',
                  PList [example_alert, example_alert_no_description, example_alert])])"
    by (simp add: example_upstream_missing_def)
  have 3: "subscript (PDict [(''data'',
                  PList [example_alert, example_alert_no_description, example_alert])]) ''data'' =
             Inr (PList ([example_alert] @ example_alert_no_description # [example_alert]))"
    by simp
  have 4: "list_all wf_alert [example_alert]"
    by (simp add: wf_example_alert)
  have 5: "subscript example_alert_no_description ''attributes'' = Inr (PDict ?attrs)"
    by (simp add: example_alert_no_description_def)
  have 6: "\<forall>v. map_of ?attrs ''created_at'' = Some v \<longrightarrow> (\<exists>dt. fromisoformat v = Inr dt)"
    by (simp add: fromisoformat_example)
  have 7: "map_of ?attrs ''description'' = None \<or> map_of ?attrs ''effect'' = None"
    by simp
  have 8: "has_str example_alert_no_description ''id'' \<and> has_str (PDict ?attrs) ''short_header'' \<and>
           has_str (PDict ?attrs) ''header'' \<and> has_timestamp (PDict ?attrs) ''created_at''"
    by (simp add: example_alert_no_description_def has_str_def has_timestamp_def
        fromisoformat_example)
  note t = missing_key_raises [where api = example_upstream_missing and g = example_globals
      and route = None and time = None, OF 1 2 3 4 5 6 7]
  from t [THEN conjunct2, THEN conjunct2, THEN conjunct1, rule_format, OF 8]
  have a: "snd (get_alerts example_globals example_upstream_missing
          (RSSAlertDriver ''T'' ''D'' ''en_us'' ''U'') None None) = Some (KeyError ''description'')"
    by simp
  from t [THEN conjunct2, THEN conjunct1]
  have b: "calls_of (fst (get_alerts example_globals example_upstream_missing
          (RSSAlertDriver ''T'' ''D'' ''en_us'' ''U'') None None)) =
       [PrintStart,
        PrintItem (PStr ''Delay'') (PStr ''Red Line delay'') (PStr []) (PStr [])
          (PStr ''03-05-2021 02:30 PM'') (PList []) (PStr ''42'')]"
    by (simp add: example_expected_item)
  from a b show ?thesis by (rule conjI)
qed

section \<open>Where a text can occur in an item\<close>

text \<open>
  A character that the pattern does not contain splits the search for the pattern.
\<close>

lemma sublist_guard:
  assumes "c \<notin> set q"
  shows "sublist q (xs @ c # ys) \<longleftrightarrow> sublist q xs \<or> sublist q ys"
proof
  assume "sublist q (xs @ c # ys)"
  then consider "sublist q xs" | "sublist q (c # ys)"
    | q1 q2 where "q = q1 @ q2" "suffix q1 xs" "prefix q2 (c # ys)"
    unfolding sublist_append by blast
  then show "sublist q xs \<or> sublist q ys"
  proof cases
    case 1
    then show ?thesis by simp
  next
    case 2
    then have "prefix q (c # ys) \<or> sublist q ys" by (simp add: sublist_Cons_right)
    with assms show ?thesis by (cases q) auto
  next
    case 3
    with assms have "q2 = []" by (cases q2) auto
    with 3 show ?thesis by auto
  qed
next
  assume "sublist q xs \<or> sublist q ys"
  then show "sublist q (xs @ c # ys)"
    by (auto simp: sublist_append sublist_Cons_right)
qed

lemma sublist_guard1:
  "c \<notin> set q \<Longrightarrow> sublist q (xs @ [c] @ ys) \<longleftrightarrow> sublist q xs \<or> sublist q ys"
  using sublist_guard [of c q xs ys] by simp

lemma sublist_guard0:
  "c \<notin> set q \<Longrightarrow> q \<noteq> [] \<Longrightarrow> sublist q ([c] @ ys) \<longleftrightarrow> sublist q ys"
  using sublist_guard [of c q "[]" ys] by simp

lemma not_sublist_hd: "q \<noteq> [] \<Longrightarrow> hd q \<notin> set xs \<Longrightarrow> \<not> sublist q xs"
  using set_mono_sublist [of q xs] by (cases q) auto

lemma sublist_longer: "sublist (q @ r) xs \<Longrightarrow> sublist q xs"
  by (auto simp: sublist_def)

text \<open>
  A text in which some characters are replaced by longer pieces that begin and end with
  characters foreign to the pattern: the pattern occurs in the expansion only where it
  occurs in the text.
\<close>

lemma prefix_expand:
  assumes f: "\<And>c. f c = [c] \<or> (f c \<noteq> [] \<and> hd (f c) \<in> G)"
  shows "set q \<inter> G = {} \<Longrightarrow> prefix q (concat (map f s)) \<Longrightarrow> prefix q s"
proof (induction s arbitrary: q)
  case Nil
  then show ?case by simp
next
  case (Cons c cs)
  show ?case
  proof (cases q)
    case Nil
    then show ?thesis by simp
  next
    case q: (Cons x xs)
    from f [of c] show ?thesis
    proof
      assume c: "f c = [c]"
      with Cons.prems q have "x = c" and "prefix xs (concat (map f cs))" by simp_all
      moreover from Cons.prems q have "set xs \<inter> G = {}" by auto
      ultimately show ?thesis using Cons.IH [of xs] q by simp
    next
      assume c: "f c \<noteq> [] \<and> hd (f c) \<in> G"
      then obtain g rest where g: "f c = g # rest" "g \<in> G" by (cases "f c") auto
      with Cons.prems q have "x = g" by simp
      with g Cons.prems q show ?thesis by auto
    qed
  qed
qed

lemma sublist_expand:
  assumes f: "\<And>c. f c = [c] \<or>
                 (\<exists>g body g'. f c = g # body @ [g'] \<and> g \<in> G \<and> g' \<in> G \<and> \<not> sublist q body)"
    and q: "q \<noteq> []" "set q \<inter> G = {}"
  shows "sublist q (concat (map f s)) \<Longrightarrow> sublist q s"
proof (induction s)
  case Nil
  then show ?case by simp
next
  case (Cons c cs)
  have f': "f c = [c] \<or> (f c \<noteq> [] \<and> hd (f c) \<in> G)" for c
    using f [of c] by auto
  from f [of c] show ?case
  proof
    assume c: "f c = [c]"
    with Cons.prems
    have "prefix q (concat (map f (c # cs))) \<or> sublist q (concat (map f cs))"
      by (simp add: sublist_Cons_right)
    then show ?thesis
    proof
      assume "prefix q (concat (map f (c # cs)))"
      from prefix_expand [of f G, OF f' q(2) this] show ?thesis by simp
    next
      assume "sublist q (concat (map f cs))"
      from Cons.IH [OF this] show ?thesis by (simp add: sublist_Cons_right)
    qed
  next
    assume "\<exists>g body g'. f c = g # body @ [g'] \<and> g \<in> G \<and> g' \<in> G \<and> \<not> sublist q body"
    then obtain g body g'
      where c: "f c = g # body @ [g']" and g: "g \<in> G" "g' \<in> G" and body: "\<not> sublist q body"
      by blast
    from g q have n: "g \<notin> set q" "g' \<notin> set q" by auto
    from Cons.prems c have "sublist q ([g] @ (body @ [g'] @ concat (map f cs)))" by simp
    then have "sublist q (body @ [g'] @ concat (map f cs))"
      by (simp only: sublist_guard0 [OF n(1) q(1)])
    then have "sublist q body \<or> sublist q (concat (map f cs))"
      by (simp only: sublist_guard1 [OF n(2)])
    with body have "sublist q (concat (map f cs))" by simp
    from Cons.IH [OF this] show ?thesis by (simp add: sublist_Cons_right)
  qed
qed

lemma foreign_not_sublist: "foreign q \<Longrightarrow> set xs \<subseteq> set own_text \<Longrightarrow> \<not> sublist q xs"
  by (rule not_sublist_hd) (auto simp: foreign_def)

lemma foreign_examples: "foreign ''Effect:''" "foreign ''None''"
  by (simp_all add: foreign_def own_text_def)

lemma foreign_guards:
  assumes "foreign q"
  shows "CHR ''<'' \<notin> set q" "CHR ''>'' \<notin> set q" "CHR ''\<newline>'' \<notin> set q" "CHR '' '' \<notin> set q"
    "CHR ''('' \<notin> set q" "CHR '')'' \<notin> set q" "CHR ''#'' \<notin> set q" "q \<noteq> []"
  using assms by (auto simp: foreign_def)

lemma html_escape_foreign:
  assumes q: "foreign q"
  shows "sublist q (html_escape s) \<Longrightarrow> sublist q s"
  unfolding html_escape_chars
proof (rule sublist_expand [where G = "{CHR ''&'', CHR '';''}"])
  fix c
  have b: "\<not> sublist q ''amp''" "\<not> sublist q ''lt''" "\<not> sublist q ''gt''"
    "\<not> sublist q ''quot''" "\<not> sublist q ''#x27''"
    by (rule foreign_not_sublist [OF q], simp add: own_text_def)+
  have "escape_char c = CHR ''&'' # ''amp'' @ [CHR '';''] \<or>
        escape_char c = CHR ''&'' # ''lt'' @ [CHR '';''] \<or>
        escape_char c = CHR ''&'' # ''gt'' @ [CHR '';''] \<or>
        escape_char c = CHR ''&'' # ''quot'' @ [CHR '';''] \<or>
        escape_char c = CHR ''&'' # ''#x27'' @ [CHR '';''] \<or>
        escape_char c = [c]"
    by (simp add: escape_char_def)
  with b show "escape_char c = [c] \<or>
        (\<exists>g body g'. escape_char c = g # body @ [g'] \<and> g \<in> {CHR ''&'', CHR '';''} \<and>
           g' \<in> {CHR ''&'', CHR '';''} \<and> \<not> sublist q body)"
    by (elim disjE) (simp, blast)+
next
  from q show "q \<noteq> []" by (simp add: foreign_def)
  from q show "set q \<inter> {CHR ''&'', CHR '';''} = {}" by (auto simp: foreign_def)
qed

lemma double_newlines_foreign:
  assumes q: "foreign q"
  shows "sublist q (double_newlines s) \<Longrightarrow> sublist q s"
  unfolding double_newlines_def
proof (rule sublist_expand [where G = "{CHR ''\<newline>''}"])
  fix c
  from q have "\<not> sublist q []" by (simp add: foreign_def)
  then show "(if c = CHR ''\<newline>'' then ''\<newline>\<newline>'' else [c]) = [c] \<or>
        (\<exists>g body g'. (if c = CHR ''\<newline>'' then ''\<newline>\<newline>'' else [c]) = g # body @ [g'] \<and>
           g \<in> {CHR ''\<newline>''} \<and> g' \<in> {CHR ''\<newline>''} \<and> \<not> sublist q body)"
    by (cases "c = CHR ''\<newline>''") auto
next
  from q show "q \<noteq> []" by (simp add: foreign_def)
  from q show "set q \<inter> {CHR ''\<newline>''} = {}" by (auto simp: foreign_def)
qed

lemma digit_char_own: "k < 10 \<Longrightarrow> digit_char k \<in> set own_text"
proof -
  assume "k < 10"
  then have "k \<in> {0, 1, 2, 3, 4, 5, 6, 7, 8, 9}" by auto
  then show ?thesis
    by (auto simp: digit_char_numerals own_text_def)
qed

lemma two_digits_own: "n < 100 \<Longrightarrow> set (two_digits n) \<subseteq> set own_text"
  by (simp add: two_digits_def digit_char_own)

lemma four_digits_own: "n < 10000 \<Longrightarrow> set (four_digits n) \<subseteq> set own_text"
  by (simp add: four_digits_def digit_char_own)

lemma spec_date_own:
  assumes "valid_datetime dt"
  shows "set (spec_date dt) \<subseteq> set own_text"
proof -
  from assms have m: "month dt < 100" and y: "year dt < 10000" and h: "hour dt < 24"
    and mi: "minute dt < 100"
    by (simp_all add: valid_datetime_def)
  from assms have "day dt \<le> days_in_month (year dt) (month dt)"
    by (simp add: valid_datetime_def)
  with days_in_month_le [of "year dt" "month dt"] have d: "day dt < 100" by linarith
  from h have h12: "hour12 (hour dt) < 100" by (auto simp: hour12_def)
  have lit: "set ''-'' \<subseteq> set own_text" "set '' '' \<subseteq> set own_text" "set '':'' \<subseteq> set own_text"
    "set ''AM'' \<subseteq> set own_text" "set ''PM'' \<subseteq> set own_text"
    by (simp_all add: own_text_def)
  show ?thesis
    unfolding spec_date_def set_append
    using two_digits_own [OF m] two_digits_own [OF d] four_digits_own [OF y]
      two_digits_own [OF h12] two_digits_own [OF mi] lit
    by (simp only: Un_subset_iff if_split) simp
qed

text \<open>A foreign pattern occurs in an item only where a field brings it.\<close>

lemma rss_item_foreign:
  assumes q: "foreign q"
    and occ: "sublist q (stdout_of (fst (print_item (RSSAlertDriver ti de la ur)
                (PStr h) (PStr lh) (PStr ds) e (PStr t) (PList []) (PStr guid))))"
  shows "sublist q h \<or> sublist q lh \<or> sublist q ds \<or> sublist q t \<or> sublist q guid"
proof -
  note g = foreign_guards [OF q]
  have lit: "\<not> sublist q ''<item>\<newline><title''"
    "\<not> sublist q ''/title>\<newline><description><pre''"
    "\<not> sublist q ''/pre></description>\<newline><pubDate''"
    "\<not> sublist q ''/pubDate>\<newline><guid''"
    "\<not> sublist q ''/guid>\<newline></item>\<newline>''"
    by (rule foreign_not_sublist [OF q], simp add: own_text_def)+
  have "stdout_of (fst (print_item (RSSAlertDriver ti de la ur)
                (PStr h) (PStr lh) (PStr ds) e (PStr t) (PList []) (PStr guid))) =
        ''<item>\<newline><title'' @ [CHR ''>''] @ html_escape h @ [CHR ''<''] @
        ''/title>\<newline><description><pre'' @ [CHR ''>''] @ html_escape lh @ [CHR ''\<newline>''] @
        ([CHR ''\<newline>''] @ (html_escape ds @ [CHR ''<''] @
        ''/pre></description>\<newline><pubDate'' @ [CHR ''>''] @ t @ [CHR ''<''] @
        ''/pubDate>\<newline><guid'' @ [CHR ''>''] @ guid @ [CHR ''<''] @
        ''/guid>\<newline></item>\<newline>''))"
    by (simp add: rss_item_text del: print_item.simps)
  with occ have "sublist q (''<item>\<newline><title'' @ [CHR ''>''] @ html_escape h @ [CHR ''<''] @
        ''/title>\<newline><description><pre'' @ [CHR ''>''] @ html_escape lh @ [CHR ''\<newline>''] @
        ([CHR ''\<newline>''] @ (html_escape ds @ [CHR ''<''] @
        ''/pre></description>\<newline><pubDate'' @ [CHR ''>''] @ t @ [CHR ''<''] @
        ''/pubDate>\<newline><guid'' @ [CHR ''>''] @ guid @ [CHR ''<''] @
        ''/guid>\<newline></item>\<newline>'')))"
    by (simp only:)
  then have "sublist q ''<item>\<newline><title'' \<or> sublist q (html_escape h) \<or>
        sublist q ''/title>\<newline><description><pre'' \<or> sublist q (html_escape lh) \<or>
        sublist q (html_escape ds) \<or> sublist q ''/pre></description>\<newline><pubDate'' \<or>
        sublist q t \<or> sublist q ''/pubDate>\<newline><guid'' \<or> sublist q guid \<or>
        sublist q ''/guid>\<newline></item>\<newline>''"
    by (simp only: sublist_guard1 [OF g(1)] sublist_guard1 [OF g(2)] sublist_guard1 [OF g(3)]
        sublist_guard0 [OF g(3) g(8)])
  with lit html_escape_foreign [OF q] show ?thesis
    by blast
qed

lemma markdown_item_foreign:
  assumes q: "foreign q"
    and occ: "sublist q (stdout_of (fst (print_item (MarkdownAlertDriver ti de la ur)
                (PStr h) (PStr lh) (PStr ds) e (PStr t) cs guid)))"
  shows "sublist q h \<or> sublist q lh \<or> sublist q ds \<or> sublist q t"
proof -
  note g = foreign_guards [OF q]
  have lit: "\<not> sublist q ''##''" "\<not> sublist q ''(added''" "\<not> sublist q ''\<newline>\<newline>''"
    by (rule foreign_not_sublist [OF q], simp add: own_text_def)+
  have "stdout_of (fst (print_item (MarkdownAlertDriver ti de la ur)
                (PStr h) (PStr lh) (PStr ds) e (PStr t) cs guid)) =
        ''##'' @ [CHR '' ''] @ h @ [CHR '' ''] @ ''(added'' @ [CHR '' ''] @ t @ [CHR '')''] @
        ([CHR ''\<newline>''] @ (lh @ [CHR ''\<newline>''] @ ([CHR ''\<newline>''] @
        (double_newlines ds @ [CHR ''\<newline>''] @ ''\<newline>\<newline>''))))"
    by (simp add: markdown_item_text del: print_item.simps)
  with occ have "sublist q (''##'' @ [CHR '' ''] @ h @ [CHR '' ''] @ ''(added'' @ [CHR '' ''] @
        t @ [CHR '')''] @
        ([CHR ''\<newline>''] @ (lh @ [CHR ''\<newline>''] @ ([CHR ''\<newline>''] @
        (double_newlines ds @ [CHR ''\<newline>''] @ ''\<newline>\<newline>'')))))"
    by (simp only:)
  then have "sublist q ''##'' \<or> sublist q h \<or> sublist q ''(added'' \<or> sublist q t \<or>
        sublist q lh \<or> sublist q (double_newlines ds) \<or> sublist q ''\<newline>\<newline>''"
    by (simp only: sublist_guard1 [OF g(4)] sublist_guard1 [OF g(6)] sublist_guard1 [OF g(3)]
        sublist_guard0 [OF g(3) g(8)])
  with lit double_newlines_foreign [OF q] show ?thesis
    by blast
qed

lemma print_item_foreign:
  assumes "foreign q"
    and "sublist q (stdout_of (fst (print_item d
                (PStr h) (PStr lh) (PStr ds) e (PStr t) (PList []) (PStr guid))))"
  shows "sublist q h \<or> sublist q lh \<or> sublist q ds \<or> sublist q t \<or> sublist q guid"
proof (cases d)
  case (MarkdownAlertDriver ti de la ur)
  with markdown_item_foreign [OF assms(1), of ti de la ur h lh ds e t "PList []" "PStr guid"]
    assms(2) show ?thesis by blast
next
  case (RSSAlertDriver ti de la ur)
  with rss_item_foreign [OF assms(1), of ti de la ur h lh ds e t guid]
    assms(2) show ?thesis by blast
qed

lemma mapper_item_foreign:
  assumes q: "foreign q"
    and args: "alert_item_args alert = Inr (PStr hs, PStr ls, PStr dss, e, t, cs, PStr gs)"
    and free: "\<not> sublist q hs" "\<not> sublist q ls" "\<not> sublist q dss" "\<not> sublist q gs"
  shows "\<not> sublist q (stdout_of (fst (print_item d (PStr hs) (PStr ls) (PStr dss) e t cs (PStr gs))))"
proof
  assume occ: "sublist q (stdout_of (fst (print_item d (PStr hs) (PStr ls) (PStr dss) e t cs
                 (PStr gs))))"
  from args obtain created dt
    where p: "fromisoformat created = Inr dt"
      and t: "t = PStr (strftime dt ''%m-%d-%Y %I:%M %p'')"
      and cs: "cs = PList []"
    unfolding alert_item_args_Inr by blast
  from fromisoformat_cases [OF p] have v: "valid_datetime dt"
    by (auto dest: fromisoformat_str_valid)
  with t have t': "t = PStr (spec_date dt)" by (simp only: strftime_format)
  from v q have "\<not> sublist q (spec_date dt)"
    by (intro foreign_not_sublist spec_date_own)
  with print_item_foreign [OF q, of d hs ls dss e "spec_date dt" gs] occ free t' cs
  show False by simp
qed

subsection \<open>Null description and null effect\<close>

text \<open>
  Claim C5, as stated, fails: a record whose effect is null and whose short header reads
  \<^verbatim>\<open>Effect: delays\<close> is rendered with \<^verbatim>\<open>Effect: \<close> in its title.
\<close>

theorem effect_text_counterexample:
  "subscript (PDict [(''short_header'', PStr ''Effect: delays''),
                     (''header'', PStr ''Red Line delay''),
                     (''created_at'', PStr ''2021-03-05T14:30:00-05:00''),
                     (''description'', PNone),
                     (''effect'', PNone)]) ''effect'' = Inr PNone
   \<and> sublist ''Effect: ''
        (stdout_of (fst (alerts_loop (RSSAlertDriver ''T'' ''D'' ''en_us'' ''U'')
           [PDict [(''id'', PStr ''44''),
                   (''attributes'',
                    PDict [(''short_header'', PStr ''Effect: delays''),
                           (''header'', PStr ''Red Line delay''),
                           (''created_at'', PStr ''2021-03-05T14:30:00-05:00''),
                           (''description'', PNone),
                           (''effect'', PNone)])]])))"
proof -
  have v: "valid_datetime \<lparr>year = 2021, month = 3, day = 5, hour = 14, minute = 30, second = 0,
          microsecond = 0, utcoffset = Some (- 18000000000)\<rparr>"
    using fromisoformat_example by (rule fromisoformat_str_valid)
  have args: "alert_item_args
           (PDict [(''id'', PStr ''44''),
                   (''attributes'',
                    PDict [(''short_header'', PStr ''Effect: delays''),
                           (''header'', PStr ''Red Line delay''),
                           (''created_at'', PStr ''2021-03-05T14:30:00-05:00''),
                           (''description'', PNone),
                           (''effect'', PNone)])]) =
         Inr (PStr ''Effect: delays'', PStr ''Red Line delay'', PStr [], PStr [],
              PStr ''03-05-2021 02:30 PM'', PList [], PStr ''44'')"
    using v
    by (simp add: alert_item_args_def fromisoformat_example strftime_format
        spec_date_example del: strftime.simps)
  have esc: "html_escape ''Effect: delays'' = ''Effect: delays''"
    by (simp add: html_escape_def str_replace_char)
  have "stdout_of (fst (alerts_loop (RSSAlertDriver ''T'' ''D'' ''en_us'' ''U'')
           [PDict [(''id'', PStr ''44''),
                   (''attributes'',
                    PDict [(''short_header'', PStr ''Effect: delays''),
                           (''header'', PStr ''Red Line delay''),
                           (''created_at'', PStr ''2021-03-05T14:30:00-05:00''),
                           (''description'', PNone),
                           (''effect'', PNone)])]])) =
        ''<item>\<newline><title>'' @ ''Effect: '' @
        (''delays</title>\<newline><description><pre>'' @ html_escape ''Red Line delay'' @
         ''\<newline>\<newline></pre></description>\<newline><pubDate>03-05-2021 02:30 PM</pubDate>\<newline>'' @
         ''<guid>44</guid>\<newline></item>\<newline>'')"
    by (simp add: args fst_seq snd_seq stdout_of_append rss_item_text esc html_escape_Nil
        print_item_strings_ok skip_def del: print_item.simps)
  then show ?thesis
    by (simp only: sublist_appendI subscript.simps) simp
qed

text \<open>
  Claim C5, amended. For a record that reaches \<^verbatim>\<open>print_item\<close>: a null description is
  passed as the empty string, and the description part of the item is then the long
  header alone (escaped, in the \<^verbatim>\<open><pre>\<close> block, for RSS; followed by blank lines
  for Markdown); a null effect is passed as the empty string and an effect \<open>s\<close> as
  \<^verbatim>\<open>Effect: \<close> followed by \<open>s\<close>; neither driver renders the effect, so the item is the
  same whatever the effect is; the text \<^verbatim>\<open>Effect: \<close> occurs nowhere in the item when
  \<^verbatim>\<open>Effect:\<close> occurs in none of the short header, the header, the description and
  the id, and likewise \<^verbatim>\<open>None\<close>.
\<close>

theorem null_fields_absorbed:
  assumes args: "alert_item_args alert = Inr (h, lh, ds, e, t, cs, guid)"
    and attrs: "subscript alert ''attributes'' = Inr attributes"
  shows "(subscript attributes ''description'' = Inr PNone \<longrightarrow>
            ds = PStr [] \<and>
            (\<forall>hs ls ts gs ti de la ur.
               h = PStr hs \<and> lh = PStr ls \<and> t = PStr ts \<and> guid = PStr gs \<longrightarrow>
               stdout_of (fst (print_item (RSSAlertDriver ti de la ur) h lh ds e t cs guid)) =
                 ''<item>\<newline><title>'' @ html_escape hs @ ''</title>\<newline>'' @
                 ''<description><pre>'' @ html_escape ls @ ''\<newline>\<newline></pre></description>\<newline>'' @
                 ''<pubDate>'' @ ts @ ''</pubDate>\<newline><guid>'' @ gs @ ''</guid>\<newline></item>\<newline>'' \<and>
               stdout_of (fst (print_item (MarkdownAlertDriver ti de la ur) h lh ds e t cs guid)) =
                 ''## '' @ hs @ '' (added '' @ ts @ '')\<newline>'' @ ls @ ''\<newline>\<newline>\<newline>\<newline>\<newline>''))
         \<and> (subscript attributes ''effect'' = Inr PNone \<longrightarrow> e = PStr [])
         \<and> (\<forall>s. subscript attributes ''effect'' = Inr (PStr s) \<longrightarrow> e = PStr (''Effect: '' @ s))
         \<and> (\<forall>d e'. stdout_of (fst (print_item d h lh ds e' t cs guid)) =
                      stdout_of (fst (print_item d h lh ds e t cs guid)) \<and>
                    snd (print_item d h lh ds e' t cs guid) =
                      snd (print_item d h lh ds e t cs guid))
         \<and> (\<forall>d hs ls dss gs.
               h = PStr hs \<and> lh = PStr ls \<and> ds = PStr dss \<and> guid = PStr gs \<and>
               \<not> sublist ''Effect:'' hs \<and> \<not> sublist ''Effect:'' ls \<and>
               \<not> sublist ''Effect:'' dss \<and> \<not> sublist ''Effect:'' gs \<longrightarrow>
               \<not> sublist ''Effect: '' (stdout_of (fst (print_item d h lh ds e t cs guid))))
         \<and> (\<forall>d hs ls dss gs.
               h = PStr hs \<and> lh = PStr ls \<and> ds = PStr dss \<and> guid = PStr gs \<and>
               \<not> sublist ''None'' hs \<and> \<not> sublist ''None'' ls \<and>
               \<not> sublist ''None'' dss \<and> \<not> sublist ''None'' gs \<longrightarrow>
               \<not> sublist ''None'' (stdout_of (fst (print_item d h lh ds e t cs guid))))"
proof -
  from args attrs obtain description eff
    where d: "subscript attributes ''description'' = Inr description"
      and ds: "ds = (if description \<noteq> PNone then description else PStr [])"
      and ef: "subscript attributes ''effect'' = Inr eff"
      and e: "(eff = PNone \<and> e = PStr []) \<or> (\<exists>s. eff = PStr s \<and> e = PStr (''Effect: '' @ s))"
      and cs: "cs = PList []"
    unfolding alert_item_args_Inr by auto
  have 1: "ds = PStr []" if "subscript attributes ''description'' = Inr PNone"
    using that d ds by simp
  have 2: "stdout_of (fst (print_item (RSSAlertDriver ti de la ur) h lh ds e t cs guid)) =
                 ''<item>\<newline><title>'' @ html_escape hs @ ''</title>\<newline>'' @
                 ''<description><pre>'' @ html_escape ls @ ''\<newline>\<newline></pre></description>\<newline>'' @
                 ''<pubDate>'' @ ts @ ''</pubDate>\<newline><guid>'' @ gs @ ''</guid>\<newline></item>\<newline>''"
    if "subscript attributes ''description'' = Inr PNone"
      "h = PStr hs \<and> lh = PStr ls \<and> t = PStr ts \<and> guid = PStr gs"
    for hs ls ts gs ti de la ur
    using that 1 cs by (simp add: rss_item_text html_escape_Nil del: print_item.simps)
  have 3: "stdout_of (fst (print_item (MarkdownAlertDriver ti de la ur) h lh ds e t cs guid)) =
                 ''## '' @ hs @ '' (added '' @ ts @ '')\<newline>'' @ ls @ ''\<newline>\<newline>\<newline>\<newline>\<newline>''"
    if "subscript attributes ''description'' = Inr PNone"
      "h = PStr hs \<and> lh = PStr ls \<and> t = PStr ts \<and> guid = PStr gs"
    for hs ls ts gs ti de la ur
    using that 1 by (simp add: markdown_item_text double_newlines_def del: print_item.simps)
  have 4: "e = PStr []" if "subscript attributes ''effect'' = Inr PNone"
    using that ef e by auto
  have 5: "e = PStr (''Effect: '' @ s)" if "subscript attributes ''effect'' = Inr (PStr s)" for s
    using that ef e by auto
  have 6: "\<not> sublist ''Effect: '' (stdout_of (fst (print_item d h lh ds e t cs guid)))"
    if "h = PStr hs \<and> lh = PStr ls \<and> ds = PStr dss \<and> guid = PStr gs \<and>
        \<not> sublist ''Effect:'' hs \<and> \<not> sublist ''Effect:'' ls \<and>
        \<not> sublist ''Effect:'' dss \<and> \<not> sublist ''Effect:'' gs"
    for d hs ls dss gs
  proof
    assume "sublist ''Effect: '' (stdout_of (fst (print_item d h lh ds e t cs guid)))"
    then have "sublist (''Effect:'' @ '' '') (stdout_of (fst (print_item d h lh ds e t cs guid)))"
      by simp
    then have "sublist ''Effect:'' (stdout_of (fst (print_item d h lh ds e t cs guid)))"
      by (rule sublist_longer)
    with mapper_item_foreign [OF foreign_examples(1), of alert hs ls dss e t cs gs d] args that
    show False by simp
  qed
  have 7: "\<not> sublist ''None'' (stdout_of (fst (print_item d h lh ds e t cs guid)))"
    if "h = PStr hs \<and> lh = PStr ls \<and> ds = PStr dss \<and> guid = PStr gs \<and>
        \<not> sublist ''None'' hs \<and> \<not> sublist ''None'' ls \<and>
        \<not> sublist ''None'' dss \<and> \<not> sublist ''None'' gs"
    for d hs ls dss gs
    using mapper_item_foreign [OF foreign_examples(2), of alert hs ls dss e t cs gs d] args that
    by simp
  show ?thesis
  proof (intro conjI impI allI)
    assume "subscript attributes ''description'' = Inr PNone"
    then show "ds = PStr []" by (rule 1)
  next
    fix hs ls ts gs ti de la ur
    assume "subscript attributes ''description'' = Inr PNone"
      and "h = PStr hs \<and> lh = PStr ls \<and> t = PStr ts \<and> guid = PStr gs"
    then show "stdout_of (fst (print_item (RSSAlertDriver ti de la ur) h lh ds e t cs guid)) =
                 ''<item>\<newline><title>'' @ html_escape hs @ ''</title>\<newline>'' @
                 ''<description><pre>'' @ html_escape ls @ ''\<newline>\<newline></pre></description>\<newline>'' @
                 ''<pubDate>'' @ ts @ ''</pubDate>\<newline><guid>'' @ gs @ ''</guid>\<newline></item>\<newline>''"
      by (rule 2)
  next
    fix hs ls ts gs ti de la ur
    assume "subscript attributes ''description'' = Inr PNone"
      and "h = PStr hs \<and> lh = PStr ls \<and> t = PStr ts \<and> guid = PStr gs"
    then show "stdout_of (fst (print_item (MarkdownAlertDriver ti de la ur) h lh ds e t cs guid)) =
                 ''## '' @ hs @ '' (added '' @ ts @ '')\<newline>'' @ ls @ ''\<newline>\<newline>\<newline>\<newline>\<newline>''"
      by (rule 3)
  next
    assume "subscript attributes ''effect'' = Inr PNone"
    then show "e = PStr []" by (rule 4)
  next
    fix s
    assume "subscript attributes ''effect'' = Inr (PStr s)"
    then show "e = PStr (''Effect: '' @ s)" by (rule 5)
  next
    fix d e'
    show "stdout_of (fst (print_item d h lh ds e' t cs guid)) =
            stdout_of (fst (print_item d h lh ds e t cs guid))"
      using print_item_ignores_effect by blast
  next
    fix d e'
    show "snd (print_item d h lh ds e' t cs guid) = snd (print_item d h lh ds e t cs guid)"
      using print_item_ignores_effect by blast
  next
    fix d hs ls dss gs
    assume "h = PStr hs \<and> lh = PStr ls \<and> ds = PStr dss \<and> guid = PStr gs \<and>
        \<not> sublist ''Effect:'' hs \<and> \<not> sublist ''Effect:'' ls \<and>
        \<not> sublist ''Effect:'' dss \<and> \<not> sublist ''Effect:'' gs"
    then show "\<not> sublist ''Effect: '' (stdout_of (fst (print_item d h lh ds e t cs guid)))"
      by (rule 6)
  next
    fix d hs ls dss gs
    assume "h = PStr hs \<and> lh = PStr ls \<and> ds = PStr dss \<and> guid = PStr gs \<and>
        \<not> sublist ''None'' hs \<and> \<not> sublist ''None'' ls \<and>
        \<not> sublist ''None'' dss \<and> \<not> sublist ''None'' gs"
    then show "\<not> sublist ''None'' (stdout_of (fst (print_item d h lh ds e t cs guid)))"
      by (rule 7)
  qed
qed

text \<open>The theorem on the sample record, whose description and effect are null.\<close>

theorem null_fields_absorbed_witness:
  "stdout_of (fst (print_item (RSSAlertDriver ''T'' ''D'' ''en_us'' ''U'')
      (PStr ''Delay'') (PStr ''Red Line delay'') (PStr []) (PStr [])
      (PStr ''03-05-2021 02:30 PM'') (PList []) (PStr ''42''))) =
     ''<item>\<newline><title>'' @ html_escape ''Delay'' @ ''</title>\<newline>'' @
     ''<description><pre>'' @ html_escape ''Red Line delay'' @ ''\<newline>\<newline></pre></description>\<newline>'' @
     ''<pubDate>'' @ ''03-05-2021 02:30 PM'' @ ''</pubDate>\<newline><guid>'' @ ''42'' @
     ''</guid>\<newline></item>\<newline>''
   \<and> \<not> sublist ''Effect: '' (stdout_of (fst (print_item (RSSAlertDriver ''T'' ''D'' ''en_us'' ''U'')
      (PStr ''Delay'') (PStr ''Red Line delay'') (PStr []) (PStr [])
      (PStr ''03-05-2021 02:30 PM'') (PList []) (PStr ''42''))))
   \<and> \<not> sublist ''None'' (stdout_of (fst (print_item (MarkdownAlertDriver ''T'' ''D'' ''en_us'' ''U'')
      (PStr ''Delay'') (PStr ''Red Line delay'') (PStr []) (PStr [])
      (PStr ''03-05-2021 02:30 PM'') (PList []) (PStr ''42''))))"
proof -
  have 1: "subscript example_alert ''attributes'' =
             Inr (PDict [(''short_header'', PStr ''Delay''),
                    (''header'', PStr ''Red Line delay''),
                    (''created_at'', PStr ''2021-03-05T14:30:00-05:00''),
                    (''description'', PNone),
                    (''effect'', PNone)])"
    by (simp add: example_alert_def)
  have 2: "subscript (PDict [(''short_header'', PStr ''Delay''),
                    (''header'', PStr ''Red Line delay''),
                    (''created_at'', PStr ''2021-03-05T14:30:00-05:00''),
                    (''description'', PNone),
                    (''effect'', PNone)]) ''description'' = Inr PNone"
    by simp
  have 3: "\<not> sublist ''Effect:'' ''Delay''" "\<not> sublist ''Effect:'' ''Red Line delay''"
    "\<not> sublist ''Effect:'' []" "\<not> sublist ''Effect:'' ''42''"
    "\<not> sublist ''None'' ''Delay''" "\<not> sublist ''None'' ''Red Line delay''"
    "\<not> sublist ''None'' []" "\<not> sublist ''None'' ''42''"
    by (simp_all add: sublist_Cons_right)
  note t = null_fields_absorbed [OF example_alert_args 1]
  note t1 = t [THEN conjunct1, rule_format, OF 2, THEN conjunct2, rule_format,
      of "''Delay''" "''Red Line delay''" "''03-05-2021 02:30 PM''" "''42''"
      "''T''" "''D''" "''en_us''" "''U''"]
  note t5 = t [THEN conjunct2, THEN conjunct2, THEN conjunct2, THEN conjunct2, THEN conjunct1,
      rule_format, of "''Delay''" "''Red Line delay''" "[]" "''42''"
      "RSSAlertDriver ''T'' ''D'' ''en_us'' ''U''"]
  note t6 = t [THEN conjunct2, THEN conjunct2, THEN conjunct2, THEN conjunct2, THEN conjunct2,
      rule_format, of "''Delay''" "''Red Line delay''" "[]" "''42''"
      "MarkdownAlertDriver ''T'' ''D'' ''en_us'' ''U''"]
  have a: "stdout_of (fst (print_item (RSSAlertDriver ''T'' ''D'' ''en_us'' ''U'')
      (PStr ''Delay'') (PStr ''Red Line delay'') (PStr []) (PStr [])
      (PStr ''03-05-2021 02:30 PM'') (PList []) (PStr ''42''))) =
     ''<item>\<newline><title>'' @ html_escape ''Delay'' @ ''</title>\<newline>'' @
     ''<description><pre>'' @ html_escape ''Red Line delay'' @ ''\<newline>\<newline></pre></description>\<newline>'' @
     ''<pubDate>'' @ ''03-05-2021 02:30 PM'' @ ''</pubDate>\<newline><guid>'' @ ''42'' @
     ''</guid>\<newline></item>\<newline>''"
    by (rule t1 [THEN conjunct1]) simp
  have b: "\<not> sublist ''Effect: '' (stdout_of (fst (print_item
      (RSSAlertDriver ''T'' ''D'' ''en_us'' ''U'')
      (PStr ''Delay'') (PStr ''Red Line delay'') (PStr []) (PStr [])
      (PStr ''03-05-2021 02:30 PM'') (PList []) (PStr ''42''))))"
    by (rule t5) (simp add: 3)
  have c: "\<not> sublist ''None'' (stdout_of (fst (print_item
      (MarkdownAlertDriver ''T'' ''D'' ''en_us'' ''U'')
      (PStr ''Delay'') (PStr ''Red Line delay'') (PStr []) (PStr [])
      (PStr ''03-05-2021 02:30 PM'') (PList []) (PStr ''42''))))"
    by (rule t6) (simp add: 3)
  from a b c show ?thesis by (intro conjI)
qed

section \<open>Selectors and missing routes\<close>

text \<open>
  Claim C8. With an output format other than \<^verbatim>\<open>rss\<close> and \<^verbatim>\<open>md\<close>, the run consists of
  one line of diagnostic on standard output and \<^verbatim>\<open>exit(0)\<close>: no driver method is
  entered and no request is sent. With a known output format and a data type other than
  \<^verbatim>\<open>alerts\<close> and \<^verbatim>\<open>stops\<close> it is the same, with the other diagnostic. The exit status
  is 0.
\<close>

theorem unknown_selector_exits:
  "(arg_output a \<noteq> None \<and> arg_output a \<noteq> Some ''rss'' \<and> arg_output a \<noteq> Some ''md'' \<longrightarrow>
      main a env_api_key api = ([Stdout ''No such output driver.\<newline>''], Some (SystemExit 0)))
   \<and> ((arg_output a = None \<or> arg_output a = Some ''rss'' \<or> arg_output a = Some ''md'') \<and>
       arg_datatype a \<noteq> None \<and> arg_datatype a \<noteq> Some ''alerts'' \<and>
       arg_datatype a \<noteq> Some ''stops'' \<longrightarrow>
      main a env_api_key api = ([Stdout ''No such data type.\<newline>''], Some (SystemExit 0)))
   \<and> exit_status (Some (SystemExit 0)) = 0"
  by (auto simp: main_def Let_def seq_def print_def raise_def DEFAULT_DATATYPE_def)

text \<open>The theorem at the output format \<^verbatim>\<open>xyz\<close> and at the data type \<^verbatim>\<open>buses\<close>.\<close>

theorem unknown_selector_exits_witness:
  "main \<lparr>arg_datatype = None, arg_output = Some ''xyz'', arg_routes = None, arg_time = None,
          arg_title = None, arg_description = None, arg_url = None\<rparr> None (\<lambda>u. Inl RequestError) =
     ([Stdout ''No such output driver.\<newline>''], Some (SystemExit 0))
   \<and> main \<lparr>arg_datatype = Some ''buses'', arg_output = Some ''md'', arg_routes = None,
            arg_time = None, arg_title = None, arg_description = None, arg_url = None\<rparr>
        None (\<lambda>u. Inl RequestError) =
     ([Stdout ''No such data type.\<newline>''], Some (SystemExit 0))"
  using unknown_selector_exits [of "\<lparr>arg_datatype = None, arg_output = Some ''xyz'',
          arg_routes = None, arg_time = None, arg_title = None, arg_description = None,
          arg_url = None\<rparr>" None "\<lambda>u. Inl RequestError"]
        unknown_selector_exits [of "\<lparr>arg_datatype = Some ''buses'', arg_output = Some ''md'',
          arg_routes = None, arg_time = None, arg_title = None, arg_description = None,
          arg_url = None\<rparr>" None "\<lambda>u. Inl RequestError"]
  by simp

text \<open>
  Claim C9. Called without a route list, \<^verbatim>\<open>get_stoplist\<close> prints its message and
  calls \<^verbatim>\<open>exit(1)\<close>; it has sent no request and entered no driver method. The main
  block reaches this when the data type is \<^verbatim>\<open>stops\<close> and no routes are given.
\<close>

theorem stoplist_requires_routes:
  "get_stoplist g api None =
     ([Stdout ''route list must be provided when listing stops\<newline>''], Some (SystemExit 1))
   \<and> requests_of (fst (get_stoplist g api None)) = []
   \<and> calls_of (fst (get_stoplist g api None)) = []
   \<and> ((arg_output a = None \<or> arg_output a = Some ''rss'' \<or> arg_output a = Some ''md'') \<and>
       arg_datatype a = Some ''stops'' \<and> arg_routes a = None \<longrightarrow>
      main a env_api_key api =
        ([Stdout ''route list must be provided when listing stops\<newline>''], Some (SystemExit 1)))"
  by (auto simp: get_stoplist_def main_def Let_def seq_def print_def raise_def)

text \<open>The theorem on the main block.\<close>

theorem stoplist_requires_routes_witness:
  "main \<lparr>arg_datatype = Some ''stops'', arg_output = Some ''md'', arg_routes = None,
          arg_time = None, arg_title = None, arg_description = None, arg_url = None\<rparr>
        None (\<lambda>u. Inl RequestError) =
     ([Stdout ''route list must be provided when listing stops\<newline>''], Some (SystemExit 1))"
  using stoplist_requires_routes [where a = "\<lparr>arg_datatype = Some ''stops'',
          arg_output = Some ''md'', arg_routes = None, arg_time = None, arg_title = None,
          arg_description = None, arg_url = None\<rparr>" and env_api_key = None
          and api = "\<lambda>u. Inl RequestError"]
  by simp


end
